theory Spec2Isabelle
  imports
    Complex_Main
    "HOL-Library.Char_ord"
    "HOL-Library.List_Lexorder"
    "HOL-Library.Product_Lexorder"
    "HOL-Library.Sublist"
begin

section \<open>Values of the frame: dates, timestamps, text\<close>

text \<open>
  The pipeline of \<^verbatim>\<open>src/etl_pipeline.py\<close> holds its rows in pandas frames. A
  timestamp is modelled to the second, as a calendar date with hour, minute and second;
  tuples are ordered lexicographically, which is the chronological order. A pandas
  \<^verbatim>\<open>float64\<close> is modelled by an exact rational, with \<open>None\<close> for NaN; a missing
  text cell (NaN in an object column) is \<open>None\<close> as well. Text is ASCII.
\<close>

type_synonym cal_date = "int \<times> nat \<times> nat"
type_synonym timestamp = "cal_date \<times> nat \<times> nat \<times> nat"

definition dt_date :: "timestamp \<Rightarrow> cal_date" where
  "dt_date t = fst t"

definition dt_hour :: "timestamp \<Rightarrow> nat" where
  "dt_hour t = fst (snd t)"

definition dt_year :: "cal_date \<Rightarrow> int" where
  "dt_year d = fst d"

definition dt_month :: "cal_date \<Rightarrow> nat" where
  "dt_month d = fst (snd d)"

definition dt_day :: "cal_date \<Rightarrow> nat" where
  "dt_day d = snd (snd d)"

definition dt_quarter :: "cal_date \<Rightarrow> nat" where
  "dt_quarter d = (dt_month d - 1) div 3 + 1"

definition table_at :: "'a \<Rightarrow> 'a list \<Rightarrow> nat \<Rightarrow> 'a" where
  "table_at dflt xs i = (if i < length xs then xs ! i else dflt)"

definition century_term :: "int \<Rightarrow> int" where
  "century_term y = y + y div 4 - y div 100 + y div 400"

definition dt_dayofweek :: "cal_date \<Rightarrow> nat" where
  "dt_dayofweek d =
     (let y = (if dt_month d < 3 then dt_year d - 1 else dt_year d);
          t = table_at 0 [0, 3, 2, 5, 0, 3, 5, 1, 4, 6, 2, 4] (dt_month d - 1)
      in nat ((century_term y + t + int (dt_day d) + 6) mod 7))"

definition is_leap :: "int \<Rightarrow> bool" where
  "is_leap y = (y mod 4 = 0 \<and> (y mod 100 \<noteq> 0 \<or> y mod 400 = 0))"

definition dt_dayofyear :: "cal_date \<Rightarrow> nat" where
  "dt_dayofyear d =
     table_at 0 [0, 31, 59, 90, 120, 151, 181, 212, 243, 273, 304, 334] (dt_month d - 1)
       + dt_day d + (if is_leap (dt_year d) \<and> 2 < dt_month d then 1 else 0)"

definition weeks_in_year :: "int \<Rightarrow> nat" where
  "weeks_in_year y =
     (if century_term y mod 7 = 4 \<or> century_term (y - 1) mod 7 = 3 then 53 else 52)"

definition dt_isoweek :: "cal_date \<Rightarrow> nat" where
  "dt_isoweek d =
     (let w = (dt_dayofyear d + 10 - (dt_dayofweek d + 1)) div 7
      in if w = 0 then weeks_in_year (dt_year d - 1)
         else if weeks_in_year (dt_year d) < w then 1
         else w)"

definition dt_month_name :: "cal_date \<Rightarrow> string" where
  "dt_month_name d =
     table_at [] [''January'', ''February'', ''March'', ''April'', ''May'', ''June'', ''July'',
       ''August'', ''September'', ''October'', ''November'', ''December''] (dt_month d - 1)"

definition dt_day_name :: "cal_date \<Rightarrow> string" where
  "dt_day_name d =
     table_at [] [''Monday'', ''Tuesday'', ''Wednesday'', ''Thursday'', ''Friday'',
       ''Saturday'', ''Sunday''] (dt_dayofweek d)"

subsection \<open>Python's string methods, on ASCII text\<close>

definition isspace :: "char \<Rightarrow> bool" where
  "isspace c = (let n = (of_char c :: nat) in (9 \<le> n \<and> n \<le> 13) \<or> (28 \<le> n \<and> n \<le> 32))"

definition strip :: "string \<Rightarrow> string" where
  "strip s = rev (dropWhile isspace (rev (dropWhile isspace s)))"

definition upper_char :: "char \<Rightarrow> char" where
  "upper_char c =
     (let n = (of_char c :: nat) in if 97 \<le> n \<and> n \<le> 122 then char_of (n - 32) else c)"

definition upper :: "string \<Rightarrow> string" where
  "upper s = map upper_char s"

definition startswith :: "string \<Rightarrow> string \<Rightarrow> bool" where
  "startswith s p = (take (length p) s = p)"

text \<open>
  \<^verbatim>\<open>astype(int)\<close> on a column of text calls Python's \<^verbatim>\<open>int\<close> on every cell:
  blanks around the number are ignored, a sign may lead, single underscores may stand
  between digits; the result must fit 64 bits. \<open>None\<close> is the exception raised.
\<close>

definition isdigit :: "char \<Rightarrow> bool" where
  "isdigit c = (let n = (of_char c :: nat) in 48 \<le> n \<and> n \<le> 57)"

fun digit_groups :: "string \<Rightarrow> bool" where
  "digit_groups [] = False"
| "digit_groups [c] = isdigit c"
| "digit_groups (c # d # cs) =
     (if isdigit c then (if d = CHR ''_'' then digit_groups cs else digit_groups (d # cs))
      else False)"

definition digits_value :: "string \<Rightarrow> int" where
  "digits_value s = foldl (\<lambda>a c. 10 * a + (of_char c - 48)) 0 (filter isdigit s)"

definition py_int :: "string \<Rightarrow> int option" where
  "py_int s =
     (let t = strip s;
          body = (if t \<noteq> [] \<and> (hd t = CHR ''-'' \<or> hd t = CHR ''+'') then tl t else t);
          v = (if t \<noteq> [] \<and> hd t = CHR ''-'' then - digits_value body else digits_value body)
      in if digit_groups body then Some v else None)"

definition astype_int :: "string \<Rightarrow> int option" where
  "astype_int s =
     (case py_int s of
        None \<Rightarrow> None
      | Some v \<Rightarrow> if - (2 ^ 63) \<le> v \<and> v < 2 ^ 63 then Some v else None)"

section \<open>Rows\<close>

text \<open>
  \<open>raw_record\<close> is a row of \<^verbatim>\<open>df_raw\<close> as \<^verbatim>\<open>read_csv\<close> returns it with the
  declared dtypes: text columns, an integer quantity and a float price. The invoice,
  description, customer and country cells may be missing. The stock code and the
  timestamp are taken as present in every row: what the database adapter makes of a
  missing key in a lookup is not in the source.
\<close>

record raw_record =
  raw_InvoiceNo :: "string option"
  raw_StockCode :: string
  raw_Description :: "string option"
  raw_Quantity :: int
  raw_InvoiceDate :: string
  raw_UnitPrice :: "rat option"
  raw_CustomerID :: "string option"
  raw_Country :: "string option"

text \<open>\<open>row\<close> is a row after the type conversions of step 3 of \<^verbatim>\<open>transform\<close>;
  \<open>clean_record\<close> adds the columns of step 5.\<close>

record row =
  InvoiceNo :: "string option"
  StockCode :: string
  Description :: "string option"
  Quantity :: int
  InvoiceDate :: timestamp
  UnitPrice :: "rat option"
  CustomerID :: int
  Country :: "string option"

record clean_record = row +
  TotalAmount :: "rat option"
  Year :: int
  Month :: nat
  Day :: nat
  DayOfWeek :: nat
  Hour :: nat

section \<open>transform: the cleaning rules\<close>

text \<open>\<^verbatim>\<open>drop_duplicates()\<close> keeps the first of equal rows, in order.\<close>

fun drop_duplicates_seen :: "'a list \<Rightarrow> 'a list \<Rightarrow> 'a list" where
  "drop_duplicates_seen seen [] = []"
| "drop_duplicates_seen seen (x # xs) =
     (if x \<in> set seen then drop_duplicates_seen seen xs
      else x # drop_duplicates_seen (x # seen) xs)"

definition drop_duplicates :: "'a list \<Rightarrow> 'a list" where
  "drop_duplicates xs = drop_duplicates_seen [] xs"

definition dropna_CustomerID :: "raw_record list \<Rightarrow> raw_record list" where
  "dropna_CustomerID df = filter (\<lambda>r. raw_CustomerID r \<noteq> None) df"

definition dropna_Description :: "raw_record list \<Rightarrow> raw_record list" where
  "dropna_Description df = filter (\<lambda>r. raw_Description r \<noteq> None) df"

text \<open>
  Step 3. \<^verbatim>\<open>pd.to_datetime\<close> converts the whole column: it raises (\<open>None\<close>) or
  settles on a reading of the cells, which it applies to each of them. It is a
  parameter of the model. The customer column is converted cell by cell; a missing
  cell or one that is no integer raises.
\<close>

type_synonym datetime_parser = "string list \<Rightarrow> (string \<Rightarrow> timestamp) option"

definition convert_CustomerID :: "string option \<Rightarrow> int option" where
  "convert_CustomerID c = (case c of None \<Rightarrow> None | Some s \<Rightarrow> astype_int s)"

definition convert_row :: "(string \<Rightarrow> timestamp) \<Rightarrow> raw_record \<Rightarrow> row option" where
  "convert_row f r =
     (case convert_CustomerID (raw_CustomerID r) of
        None \<Rightarrow> None
      | Some cid \<Rightarrow>
          Some \<lparr> InvoiceNo = raw_InvoiceNo r, StockCode = raw_StockCode r,
                 Description = raw_Description r, Quantity = raw_Quantity r,
                 InvoiceDate = f (raw_InvoiceDate r), UnitPrice = raw_UnitPrice r,
                 CustomerID = cid, Country = raw_Country r \<rparr>)"

fun convert_rows :: "(string \<Rightarrow> timestamp) \<Rightarrow> raw_record list \<Rightarrow> row list option" where
  "convert_rows f [] = Some []"
| "convert_rows f (r # rs) =
     (case convert_row f r of
        None \<Rightarrow> None
      | Some x \<Rightarrow> (case convert_rows f rs of None \<Rightarrow> None | Some xs \<Rightarrow> Some (x # xs)))"

definition convert_types :: "datetime_parser \<Rightarrow> raw_record list \<Rightarrow> row list option" where
  "convert_types to_datetime df =
     (case to_datetime (map raw_InvoiceDate df) of
        None \<Rightarrow> None
      | Some f \<Rightarrow> convert_rows f df)"

text \<open>Step 4: the quality filters, in the order of the source.\<close>

definition is_cancelled :: "'a row_scheme \<Rightarrow> bool" where
  "is_cancelled r = (case InvoiceNo r of None \<Rightarrow> False | Some s \<Rightarrow> startswith s ''C'')"

definition positive_price :: "rat option \<Rightarrow> bool" where
  "positive_price p = (case p of None \<Rightarrow> False | Some v \<Rightarrow> 0 < v)"

definition quality_filters :: "row list \<Rightarrow> row list" where
  "quality_filters df =
     filter (\<lambda>r. Quantity r \<le> 10000)
       (filter (\<lambda>r. 0 < Quantity r \<and> positive_price (UnitPrice r))
         (filter (\<lambda>r. \<not> is_cancelled r) df))"

text \<open>Steps 5 and 6: the derived columns, then the text cleaning.\<close>

definition add_features :: "row \<Rightarrow> clean_record" where
  "add_features r =
     row.extend r
       (clean_record.fields
          (map_option (\<lambda>p. of_int (Quantity r) * p) (UnitPrice r))
          (dt_year (dt_date (InvoiceDate r)))
          (dt_month (dt_date (InvoiceDate r)))
          (dt_day (dt_date (InvoiceDate r)))
          (dt_dayofweek (dt_date (InvoiceDate r)))
          (dt_hour (InvoiceDate r)))"

definition clean_text :: "clean_record \<Rightarrow> clean_record" where
  "clean_text r =
     r \<lparr> Description := map_option (\<lambda>s. upper (strip s)) (Description r),
         Country := map_option strip (Country r) \<rparr>"

definition clean_frame :: "datetime_parser \<Rightarrow> raw_record list \<Rightarrow> clean_record list option" where
  "clean_frame to_datetime raw =
     (case convert_types to_datetime
             (dropna_Description (dropna_CustomerID (drop_duplicates raw))) of
        None \<Rightarrow> None
      | Some df \<Rightarrow> Some (map (clean_text \<circ> add_features) (quality_filters df)))"

section \<open>The warehouse\<close>

text \<open>
  The frames built by \<^verbatim>\<open>load_dimensions\<close> carry the columns the code sends; a
  stored row adds what the schema fills in. The schema is not among the sources: the
  surrogate keys \<open>date_id\<close> and \<open>product_id\<close> are read back by \<^verbatim>\<open>load_facts\<close>,
  and \<open>updated_at\<close> is written by the customer upsert.
\<close>

record dates_df_row =
  full_date :: cal_date
  year :: int
  quarter :: nat
  month :: nat
  month_name :: string
  week :: nat
  day_of_month :: nat
  day_of_week :: nat
  day_name :: string
  is_weekend :: bool

record dim_dates_row = dates_df_row +
  date_id :: nat

record customers_df_row =
  customer_id :: int
  country :: "string option"
  first_purchase_date :: timestamp
  last_purchase_date :: timestamp
  total_orders :: nat
  lifetime_value :: rat

record dim_customers_row = customers_df_row +
  updated_at :: "nat option"

record products_df_row =
  stock_code :: string
  description :: "string option"
  unit_price :: "rat option"

record dim_products_row = products_df_row +
  product_id :: nat

record fact_row =
  fact_invoice_no :: "string option"
  fact_customer_id :: int
  fact_product_id :: nat
  fact_date_id :: nat
  fact_invoice_date :: timestamp
  fact_quantity :: int
  fact_unit_price :: "rat option"

record database =
  dim_dates :: "dim_dates_row list"
  dim_customers :: "dim_customers_row list"
  dim_products :: "dim_products_row list"
  fact_transactions :: "fact_row list"
  mv_monthly_metrics :: "fact_row list"

text \<open>
  A connection sees the \<open>live\<close> state of its open transaction; \<open>saved\<close> is what has
  been committed. The two sequences hand out surrogate keys and are not rolled back.
  \<open>calls\<close> counts the storage calls made through the current cursor, and a fault
  schedule \<open>nat \<Rightarrow> bool\<close> tells which of them the storage answers with an exception.
  Opening a cursor, rolling back and closing are taken to succeed.
\<close>

record session =
  live :: database
  saved :: database
  date_seq :: nat
  product_seq :: nat
  now :: nat
  calls :: nat
  is_open :: bool

datatype 'a outcome = Raised session | Done 'a session

definition cursor :: "session \<Rightarrow> session" where
  "cursor c = c \<lparr> calls := 0 \<rparr>"

definition execute :: "(nat \<Rightarrow> bool) \<Rightarrow> (session \<Rightarrow> session) \<Rightarrow> session \<Rightarrow> unit outcome" where
  "execute fault stmt c =
     (if fault (calls c) then Raised c else Done () (stmt (c \<lparr> calls := Suc (calls c) \<rparr>)))"

definition fetchone :: "(nat \<Rightarrow> bool) \<Rightarrow> (database \<Rightarrow> 'a) \<Rightarrow> session \<Rightarrow> 'a outcome" where
  "fetchone fault query c =
     (if fault (calls c) then Raised c
      else Done (query (live c)) (c \<lparr> calls := Suc (calls c) \<rparr>))"

definition commit :: "(nat \<Rightarrow> bool) \<Rightarrow> session \<Rightarrow> unit outcome" where
  "commit fault c =
     (if fault (calls c) then Raised c
      else Done () (c \<lparr> calls := Suc (calls c), saved := live c \<rparr>))"

definition rollback :: "session \<Rightarrow> session" where
  "rollback c = c \<lparr> live := saved c \<rparr>"

fun execute_rows ::
  "(nat \<Rightarrow> bool) \<Rightarrow> ('a \<Rightarrow> session \<Rightarrow> session) \<Rightarrow> 'a list \<Rightarrow> session \<Rightarrow> unit outcome" where
  "execute_rows fault stmt [] c = Done () c"
| "execute_rows fault stmt (r # rs) c =
     (case execute fault (stmt r) c of
        Raised c' \<Rightarrow> Raised c'
      | Done u c' \<Rightarrow> execute_rows fault stmt rs c')"

subsection \<open>The statements of load_dimensions\<close>

text \<open>\<^verbatim>\<open>INSERT INTO dim_dates ... ON CONFLICT (full_date) DO NOTHING\<close>. The key a
  sequence hands out is used up also when the row is not inserted.\<close>

definition upsert_date :: "dates_df_row \<Rightarrow> nat \<Rightarrow> dim_dates_row list \<Rightarrow> dim_dates_row list" where
  "upsert_date v fresh table =
     (if full_date v \<in> full_date ` set table then table
      else table @ [dates_df_row.extend v (dim_dates_row.fields fresh)])"

definition insert_date :: "dates_df_row \<Rightarrow> session \<Rightarrow> session" where
  "insert_date v c =
     c \<lparr> date_seq := Suc (date_seq c),
         live := (live c) \<lparr> dim_dates := upsert_date v (date_seq c) (dim_dates (live c)) \<rparr> \<rparr>"

text \<open>\<^verbatim>\<open>INSERT INTO dim_customers ... ON CONFLICT (customer_id) DO UPDATE SET
  last_purchase_date, total_orders, lifetime_value, updated_at\<close>. A fresh row leaves
  \<open>updated_at\<close> to the schema (\<open>None\<close>).\<close>

definition update_customer :: "customers_df_row \<Rightarrow> nat \<Rightarrow> dim_customers_row \<Rightarrow> dim_customers_row" where
  "update_customer v t r =
     (if customer_id r = customer_id v
      then r \<lparr> last_purchase_date := last_purchase_date v, total_orders := total_orders v,
               lifetime_value := lifetime_value v, updated_at := Some t \<rparr>
      else r)"

definition upsert_customer ::
  "customers_df_row \<Rightarrow> nat \<Rightarrow> dim_customers_row list \<Rightarrow> dim_customers_row list" where
  "upsert_customer v t table =
     (if customer_id v \<in> customer_id ` set table then map (update_customer v t) table
      else table @ [customers_df_row.extend v (dim_customers_row.fields None)])"

definition insert_customer :: "customers_df_row \<Rightarrow> session \<Rightarrow> session" where
  "insert_customer v c =
     c \<lparr> live := (live c) \<lparr> dim_customers :=
           upsert_customer v (now c) (dim_customers (live c)) \<rparr> \<rparr>"

text \<open>\<^verbatim>\<open>INSERT INTO dim_products ... ON CONFLICT (stock_code) DO UPDATE SET
  description, unit_price\<close>\<close>

definition update_product :: "products_df_row \<Rightarrow> dim_products_row \<Rightarrow> dim_products_row" where
  "update_product v r =
     (if stock_code r = stock_code v
      then r \<lparr> description := description v, unit_price := unit_price v \<rparr>
      else r)"

definition upsert_product ::
  "products_df_row \<Rightarrow> nat \<Rightarrow> dim_products_row list \<Rightarrow> dim_products_row list" where
  "upsert_product v fresh table =
     (if stock_code v \<in> stock_code ` set table then map (update_product v) table
      else table @ [products_df_row.extend v (dim_products_row.fields fresh)])"

definition insert_product :: "products_df_row \<Rightarrow> session \<Rightarrow> session" where
  "insert_product v c =
     c \<lparr> product_seq := Suc (product_seq c),
         live := (live c) \<lparr> dim_products :=
           upsert_product v (product_seq c) (dim_products (live c)) \<rparr> \<rparr>"

subsection \<open>The frames of load_dimensions\<close>

definition unique :: "'a list \<Rightarrow> 'a list" where
  "unique xs = drop_duplicates_seen [] xs"

definition dates_df_of :: "cal_date \<Rightarrow> dates_df_row" where
  "dates_df_of d =
     \<lparr> full_date = d, year = dt_year d, quarter = dt_quarter d, month = dt_month d,
       month_name = dt_month_name d, week = dt_isoweek d, day_of_month = dt_day d,
       day_of_week = dt_dayofweek d, day_name = dt_day_name d,
       is_weekend = (dt_dayofweek d = 5 \<or> dt_dayofweek d = 6) \<rparr>"

definition dates_frame :: "clean_record list \<Rightarrow> dates_df_row list" where
  "dates_frame df = map dates_df_of (unique (map (\<lambda>r. dt_date (InvoiceDate r)) df))"

text \<open>The aggregations skip missing values: \<open>first\<close> is the first value that is
  present, \<open>nunique\<close> counts the distinct present ones, \<open>sum\<close> and \<open>mean\<close> leave
  NaN out. \<^verbatim>\<open>groupby\<close> lists its keys in ascending order.\<close>

fun agg_first :: "'a option list \<Rightarrow> 'a option" where
  "agg_first [] = None"
| "agg_first (None # xs) = agg_first xs"
| "agg_first (Some v # xs) = Some v"

definition present :: "'a option list \<Rightarrow> 'a list" where
  "present xs = concat (map (\<lambda>x. case x of None \<Rightarrow> [] | Some v \<Rightarrow> [v]) xs)"

definition agg_nunique :: "'a option list \<Rightarrow> nat" where
  "agg_nunique xs = length (remdups (present xs))"

definition agg_sum :: "rat option list \<Rightarrow> rat" where
  "agg_sum xs = sum_list (present xs)"

definition agg_mean :: "rat option list \<Rightarrow> rat option" where
  "agg_mean xs =
     (if present xs = [] then None
      else Some (sum_list (present xs) / of_nat (length (present xs))))"

definition agg_min :: "timestamp list \<Rightarrow> timestamp" where
  "agg_min xs = fold min (tl xs) (hd xs)"

definition agg_max :: "timestamp list \<Rightarrow> timestamp" where
  "agg_max xs = fold max (tl xs) (hd xs)"

definition customer_group :: "clean_record list \<Rightarrow> int \<Rightarrow> customers_df_row" where
  "customer_group df k =
     (let g = filter (\<lambda>r. CustomerID r = k) df
      in \<lparr> customer_id = k, country = agg_first (map Country g),
           first_purchase_date = agg_min (map InvoiceDate g),
           last_purchase_date = agg_max (map InvoiceDate g),
           total_orders = agg_nunique (map InvoiceNo g),
           lifetime_value = agg_sum (map TotalAmount g) \<rparr>)"

definition customers_frame :: "clean_record list \<Rightarrow> customers_df_row list" where
  "customers_frame df = map (customer_group df) (sort (remdups (map CustomerID df)))"

definition product_group :: "clean_record list \<Rightarrow> string \<Rightarrow> products_df_row" where
  "product_group df k =
     (let g = filter (\<lambda>r. StockCode r = k) df
      in \<lparr> stock_code = k, description = agg_first (map Description g),
           unit_price = agg_mean (map UnitPrice g) \<rparr>)"

definition products_frame :: "clean_record list \<Rightarrow> products_df_row list" where
  "products_frame df = map (product_group df) (sort (remdups (map StockCode df)))"

section \<open>The pipeline object\<close>

datatype stage =
  Connect | Extract | Transform | LoadDimensions | LoadFacts | RefreshAggregates | Validate

text \<open>An entry of \<^verbatim>\<open>stats['errors']\<close>: the prefix of the message names the stage.\<close>

datatype error_entry =
  Connection_error | Extraction_error | Transformation_error | Dimension_load_error
  | Fact_load_error

record run_stats =
  rows_extracted :: nat
  rows_after_cleaning :: nat
  customers_loaded :: nat
  products_loaded :: nat
  dates_loaded :: nat
  transactions_loaded :: nat
  errors :: "error_entry list"

text \<open>
  The state of an \<^verbatim>\<open>EcommerceETL\<close> object. \<open>conn\<close> is the warehouse session that
  \<^verbatim>\<open>connect\<close> opens; the stage methods are modelled as \<^verbatim>\<open>run\<close> calls them, after
  \<^verbatim>\<open>connect\<close> has returned. \<open>logged\<close> keeps, in order, the closing log line of every
  stage method that has run: the stage and whether it logged success.
\<close>

record etl =
  conn :: session
  df_raw :: "raw_record list option"
  df_clean :: "clean_record list option"
  stats :: run_stats
  logged :: "(stage \<times> bool) list"

definition log_line :: "stage \<Rightarrow> bool \<Rightarrow> etl \<Rightarrow> etl" where
  "log_line st ok s = s \<lparr> logged := logged s @ [(st, ok)] \<rparr>"

definition append_error :: "error_entry \<Rightarrow> etl \<Rightarrow> etl" where
  "append_error e s = s \<lparr> stats := (stats s) \<lparr> errors := errors (stats s) @ [e] \<rparr> \<rparr>"

subsection \<open>connect, extract, transform\<close>

definition connect :: "(nat \<Rightarrow> bool) \<Rightarrow> etl \<Rightarrow> bool \<times> etl" where
  "connect fault s =
     (if fault 0 then (False, append_error Connection_error (log_line Connect False s))
      else (True, log_line Connect True (s \<lparr> conn := (conn s) \<lparr> is_open := True \<rparr> \<rparr>)))"

text \<open>The file as \<^verbatim>\<open>read_csv\<close> returns it stands for the path: \<open>None\<close> when reading
  raises.\<close>

definition extract_csv :: "raw_record list option \<Rightarrow> etl \<Rightarrow> bool \<times> etl" where
  "extract_csv source s =
     (case source of
        None \<Rightarrow> (False, append_error Extraction_error (log_line Extract False s))
      | Some rows \<Rightarrow>
          (True, log_line Extract True
             (s \<lparr> df_raw := Some rows,
                  stats := (stats s) \<lparr> rows_extracted := length rows \<rparr> \<rparr>)))"

text \<open>
  \<^verbatim>\<open>transform\<close> stores the clean frame and its length, and then logs the share of
  rows retained: on an empty raw frame that division raises, after the assignments.
\<close>

definition transform :: "datetime_parser \<Rightarrow> etl \<Rightarrow> bool \<times> etl" where
  "transform to_datetime s =
     (case df_raw s of
        None \<Rightarrow> (False, append_error Transformation_error (log_line Transform False s))
      | Some raw \<Rightarrow>
          (case clean_frame to_datetime raw of
             None \<Rightarrow> (False, append_error Transformation_error (log_line Transform False s))
           | Some df \<Rightarrow>
               (let s' = s \<lparr> df_clean := Some df,
                              stats := (stats s) \<lparr> rows_after_cleaning := length df \<rparr> \<rparr>
                in if length raw = 0
                   then (False, append_error Transformation_error (log_line Transform False s'))
                   else (True, log_line Transform True s'))))"

subsection \<open>load_dimensions\<close>

definition dimensions_failed :: "etl \<Rightarrow> session \<Rightarrow> bool \<times> etl" where
  "dimensions_failed s c =
     (False, append_error Dimension_load_error
               (log_line LoadDimensions False (s \<lparr> conn := rollback c \<rparr>)))"

definition load_dimensions :: "(nat \<Rightarrow> bool) \<Rightarrow> etl \<Rightarrow> bool \<times> etl" where
  "load_dimensions fault s =
     (let c0 = cursor (conn s) in
      case df_clean s of
        None \<Rightarrow> dimensions_failed s c0
      | Some df \<Rightarrow>
     (let dates_df = dates_frame df in
      case execute_rows fault insert_date dates_df c0 of
        Raised c \<Rightarrow> dimensions_failed s c
      | Done u c1 \<Rightarrow>
     (case commit fault c1 of
        Raised c \<Rightarrow> dimensions_failed s c
      | Done u c2 \<Rightarrow>
     (let s1 = s \<lparr> stats := (stats s) \<lparr> dates_loaded := length dates_df \<rparr> \<rparr>;
          customers_df = customers_frame df in
      case execute_rows fault insert_customer customers_df c2 of
        Raised c \<Rightarrow> dimensions_failed s1 c
      | Done u c3 \<Rightarrow>
     (case commit fault c3 of
        Raised c \<Rightarrow> dimensions_failed s1 c
      | Done u c4 \<Rightarrow>
     (let s2 = s1 \<lparr> stats := (stats s1) \<lparr> customers_loaded := length customers_df \<rparr> \<rparr>;
          products_df = products_frame df in
      case execute_rows fault insert_product products_df c4 of
        Raised c \<Rightarrow> dimensions_failed s2 c
      | Done u c5 \<Rightarrow>
     (case commit fault c5 of
        Raised c \<Rightarrow> dimensions_failed s2 c
      | Done u c6 \<Rightarrow>
          (True, log_line LoadDimensions True
             (s2 \<lparr> conn := c6,
                   stats := (stats s2) \<lparr> products_loaded := length products_df \<rparr> \<rparr>)))))))))"

subsection \<open>load_facts\<close>

text \<open>The three key lookups of a record; \<^verbatim>\<open>fetchone()\<close> gives the first row found,
  or \<open>None\<close>.\<close>

definition select_customer :: "int \<Rightarrow> database \<Rightarrow> int option" where
  "select_customer k db =
     map_option customer_id (find (\<lambda>r. customer_id r = k) (dim_customers db))"

definition select_product :: "string \<Rightarrow> database \<Rightarrow> nat option" where
  "select_product k db =
     map_option product_id (find (\<lambda>r. stock_code r = k) (dim_products db))"

definition select_date :: "cal_date \<Rightarrow> database \<Rightarrow> nat option" where
  "select_date k db =
     map_option date_id (find (\<lambda>r. full_date r = k) (dim_dates db))"

definition fact_of :: "clean_record \<Rightarrow> int \<Rightarrow> nat \<Rightarrow> nat \<Rightarrow> fact_row" where
  "fact_of r cid pid did =
     \<lparr> fact_invoice_no = InvoiceNo r, fact_customer_id = cid, fact_product_id = pid,
       fact_date_id = did, fact_invoice_date = InvoiceDate r, fact_quantity = Quantity r,
       fact_unit_price = UnitPrice r \<rparr>"

fun resolve_rows ::
  "(nat \<Rightarrow> bool) \<Rightarrow> clean_record list \<Rightarrow> fact_row list \<Rightarrow> session \<Rightarrow> fact_row list outcome" where
  "resolve_rows fault [] transactions c = Done transactions c"
| "resolve_rows fault (r # rs) transactions c =
     (case fetchone fault (select_customer (CustomerID r)) c of
        Raised c' \<Rightarrow> Raised c'
      | Done customer_result c1 \<Rightarrow>
     (case fetchone fault (select_product (StockCode r)) c1 of
        Raised c' \<Rightarrow> Raised c'
      | Done product_result c2 \<Rightarrow>
     (case fetchone fault (select_date (dt_date (InvoiceDate r))) c2 of
        Raised c' \<Rightarrow> Raised c'
      | Done date_result c3 \<Rightarrow>
          (case (customer_result, product_result, date_result) of
             (Some cid, Some pid, Some did) \<Rightarrow>
               resolve_rows fault rs (transactions @ [fact_of r cid pid did]) c3
           | _ \<Rightarrow> resolve_rows fault rs transactions c3))))"

text \<open>\<^verbatim>\<open>execute_batch(cursor, insert_query, transactions, page_size=1000)\<close> sends the
  rows in pages, one call per page, on the open transaction.\<close>

function paginate :: "nat \<Rightarrow> 'a list \<Rightarrow> 'a list list" where
  "paginate n xs = (if n = 0 \<or> xs = [] then [] else take n xs # paginate n (drop n xs))"
  by pat_completeness auto
termination
  by (relation "measure (\<lambda>(n, xs). length xs)") auto

declare paginate.simps [simp del]

definition insert_facts :: "fact_row list \<Rightarrow> session \<Rightarrow> session" where
  "insert_facts page c =
     c \<lparr> live := (live c) \<lparr> fact_transactions := fact_transactions (live c) @ page \<rparr> \<rparr>"

definition execute_batch :: "(nat \<Rightarrow> bool) \<Rightarrow> fact_row list \<Rightarrow> nat \<Rightarrow> session \<Rightarrow> unit outcome" where
  "execute_batch fault transactions page_size c =
     execute_rows fault insert_facts (paginate page_size transactions) c"

definition facts_failed :: "etl \<Rightarrow> session \<Rightarrow> bool \<times> etl" where
  "facts_failed s c =
     (False, append_error Fact_load_error
               (log_line LoadFacts False (s \<lparr> conn := rollback c \<rparr>)))"

definition load_facts :: "(nat \<Rightarrow> bool) \<Rightarrow> etl \<Rightarrow> bool \<times> etl" where
  "load_facts fault s =
     (let c0 = cursor (conn s) in
      case df_clean s of
        None \<Rightarrow> facts_failed s c0
      | Some df \<Rightarrow>
     (case resolve_rows fault df [] c0 of
        Raised c \<Rightarrow> facts_failed s c
      | Done transactions c1 \<Rightarrow>
     (case execute_batch fault transactions 1000 c1 of
        Raised c \<Rightarrow> facts_failed s c
      | Done u c2 \<Rightarrow>
     (case commit fault c2 of
        Raised c \<Rightarrow> facts_failed s c
      | Done u c3 \<Rightarrow>
          (True, log_line LoadFacts True
             (s \<lparr> conn := c3,
                  stats := (stats s) \<lparr> transactions_loaded := length transactions \<rparr> \<rparr>))))))"

subsection \<open>refresh_aggregates\<close>

text \<open>The materialized view is refreshed by the storage; the model keeps the fact
  rows it was refreshed from. On failure the method neither rolls back nor records an
  error.\<close>

definition refresh_view :: "session \<Rightarrow> session" where
  "refresh_view c =
     c \<lparr> live := (live c) \<lparr> mv_monthly_metrics := fact_transactions (live c) \<rparr> \<rparr>"

definition refresh_aggregates :: "(nat \<Rightarrow> bool) \<Rightarrow> etl \<Rightarrow> bool \<times> etl" where
  "refresh_aggregates fault s =
     (let c0 = cursor (conn s) in
      case execute fault refresh_view c0 of
        Raised c \<Rightarrow> (False, log_line RefreshAggregates False (s \<lparr> conn := c \<rparr>))
      | Done u c1 \<Rightarrow>
     (case commit fault c1 of
        Raised c \<Rightarrow> (False, log_line RefreshAggregates False (s \<lparr> conn := c \<rparr>))
      | Done u c2 \<Rightarrow> (True, log_line RefreshAggregates True (s \<lparr> conn := c2 \<rparr>))))"

subsection \<open>validate\<close>

text \<open>
  Modelled from the spec: the \<open>total_amount\<close> column of \<open>fact_transactions\<close>, which
  \<^verbatim>\<open>validate\<close> reads and no statement of the code writes, is declared by the schema,
  and the schema is not among the sources. The spec's derived total is quantity times
  unit price.
\<close>

definition total_amount :: "fact_row \<Rightarrow> rat option" where
  "total_amount f = map_option (\<lambda>p. of_int (fact_quantity f) * p) (fact_unit_price f)"

record validation_results =
  transaction_count :: nat
  customer_count :: nat
  product_count :: nat
  negative_amounts :: nat
  total_revenue :: "rat option"
  date_range :: "timestamp option \<times> timestamp option"

definition count_negative_amounts :: "database \<Rightarrow> nat" where
  "count_negative_amounts db =
     length (filter (\<lambda>f. case total_amount f of None \<Rightarrow> False | Some a \<Rightarrow> a < 0)
               (fact_transactions db))"

definition sum_total_amount :: "database \<Rightarrow> rat option" where
  "sum_total_amount db =
     (let amounts = present (map total_amount (fact_transactions db))
      in if amounts = [] then None else Some (sum_list amounts))"

definition min_max_invoice_date :: "database \<Rightarrow> timestamp option \<times> timestamp option" where
  "min_max_invoice_date db =
     (let ds = map fact_invoice_date (fact_transactions db)
      in if ds = [] then (None, None) else (Some (agg_min ds), Some (agg_max ds)))"

definition validation_failed :: "etl \<Rightarrow> session \<Rightarrow> validation_results option \<times> etl" where
  "validation_failed s c = (None, log_line Validate False (s \<lparr> conn := c \<rparr>))"

text \<open>The result is the mapping returned; \<open>None\<close> is the empty mapping of the
  \<^verbatim>\<open>except\<close> branch. \<open>date_range\<close> keeps the pair that the code formats.\<close>

definition validate :: "(nat \<Rightarrow> bool) \<Rightarrow> etl \<Rightarrow> validation_results option \<times> etl" where
  "validate fault s =
     (let c0 = cursor (conn s) in
      case fetchone fault (\<lambda>db. length (fact_transactions db)) c0 of
        Raised c \<Rightarrow> validation_failed s c
      | Done n_facts c1 \<Rightarrow>
     (case fetchone fault (\<lambda>db. length (dim_customers db)) c1 of
        Raised c \<Rightarrow> validation_failed s c
      | Done n_customers c2 \<Rightarrow>
     (case fetchone fault (\<lambda>db. length (dim_products db)) c2 of
        Raised c \<Rightarrow> validation_failed s c
      | Done n_products c3 \<Rightarrow>
     (case fetchone fault count_negative_amounts c3 of
        Raised c \<Rightarrow> validation_failed s c
      | Done n_negative c4 \<Rightarrow>
     (case fetchone fault sum_total_amount c4 of
        Raised c \<Rightarrow> validation_failed s c
      | Done revenue c5 \<Rightarrow>
     (case fetchone fault min_max_invoice_date c5 of
        Raised c \<Rightarrow> validation_failed s c
      | Done min_max c6 \<Rightarrow>
          (Some \<lparr> transaction_count = n_facts, customer_count = n_customers,
                  product_count = n_products, negative_amounts = n_negative,
                  total_revenue = revenue, date_range = min_max \<rparr>,
           log_line Validate True (s \<lparr> conn := c6 \<rparr>))))))))"

subsection \<open>close and run\<close>

text \<open>Closing the connection discards what was not committed.\<close>

definition close :: "etl \<Rightarrow> etl" where
  "close s = s \<lparr> conn := (conn s) \<lparr> live := saved (conn s), is_open := False \<rparr> \<rparr>"

text \<open>
  The \<^verbatim>\<open>try\<close> block of \<^verbatim>\<open>run\<close>. The fault schedule is given per stage. The
  result of \<^verbatim>\<open>validate\<close> is not looked at. The summary divides by
  \<open>rows_extracted\<close>; a division by zero would be caught by the outer handler, which
  returns \<open>False\<close>.
\<close>

definition run_try :: "(stage \<Rightarrow> nat \<Rightarrow> bool) \<Rightarrow> datetime_parser \<Rightarrow> raw_record list option \<Rightarrow> etl \<Rightarrow> bool \<times> etl" where
  "run_try fault to_datetime source s0 =
     (let (ok1, s1) = connect (fault Connect) s0 in
      if \<not> ok1 then (False, s1) else
      let (ok2, s2) = extract_csv source s1 in
      if \<not> ok2 then (False, s2) else
      let (ok3, s3) = transform to_datetime s2 in
      if \<not> ok3 then (False, s3) else
      let (ok4, s4) = load_dimensions (fault LoadDimensions) s3 in
      if \<not> ok4 then (False, s4) else
      let (ok5, s5) = load_facts (fault LoadFacts) s4 in
      if \<not> ok5 then (False, s5) else
      let (ok6, s6) = refresh_aggregates (fault RefreshAggregates) s5 in
      if \<not> ok6 then (False, s6) else
      let (validation, s7) = validate (fault Validate) s6 in
      if rows_extracted (stats s7) = 0 then (False, s7) else (True, s7))"

definition run :: "(stage \<Rightarrow> nat \<Rightarrow> bool) \<Rightarrow> datetime_parser \<Rightarrow> raw_record list option \<Rightarrow> etl \<Rightarrow> bool \<times> etl" where
  "run fault to_datetime source s0 =
     (let (ok, s) = run_try fault to_datetime source s0 in (ok, close s))"

text \<open>The object as \<^verbatim>\<open>__init__\<close> leaves it, facing a warehouse session.\<close>

definition init_stats :: run_stats where
  "init_stats =
     \<lparr> rows_extracted = 0, rows_after_cleaning = 0, customers_loaded = 0,
       products_loaded = 0, dates_loaded = 0, transactions_loaded = 0, errors = [] \<rparr>"

definition init :: "session \<Rightarrow> etl" where
  "init c = \<lparr> conn = c, df_raw = None, df_clean = None, stats = init_stats, logged = [] \<rparr>"

definition empty_database :: database where
  "empty_database =
     \<lparr> dim_dates = [], dim_customers = [], dim_products = [], fact_transactions = [],
       mv_monthly_metrics = [] \<rparr>"

definition fresh_session :: "database \<Rightarrow> session" where
  "fresh_session db =
     \<lparr> live = db, saved = db, date_seq = 1, product_seq = 1, now = 0, calls = 0,
       is_open = False \<rparr>"

section \<open>The properties, in the words of the specification\<close>

text \<open>The filter predicates of the cleaning rules, read on a raw row.\<close>

definition passes_filters :: "raw_record \<Rightarrow> bool" where
  "passes_filters r =
     (raw_CustomerID r \<noteq> None \<and> raw_Description r \<noteq> None
      \<and> \<not> (case raw_InvoiceNo r of None \<Rightarrow> False | Some s \<Rightarrow> startswith s ''C'')
      \<and> 0 < raw_Quantity r \<and> positive_price (raw_UnitPrice r) \<and> raw_Quantity r \<le> 10000)"

text \<open>A clean record that is a raw row converted and normalised, with no value
  repaired: \<open>f\<close> is the reading of the timestamps.\<close>

definition derived_from :: "(string \<Rightarrow> timestamp) \<Rightarrow> raw_record \<Rightarrow> clean_record \<Rightarrow> bool" where
  "derived_from f r c =
     (InvoiceNo c = raw_InvoiceNo r \<and> StockCode c = raw_StockCode r
      \<and> Description c = map_option (\<lambda>s. upper (strip s)) (raw_Description r)
      \<and> Quantity c = raw_Quantity r \<and> InvoiceDate c = f (raw_InvoiceDate r)
      \<and> UnitPrice c = raw_UnitPrice r
      \<and> convert_CustomerID (raw_CustomerID r) = Some (CustomerID c)
      \<and> Country c = map_option strip (raw_Country r)
      \<and> TotalAmount c = map_option (\<lambda>p. of_int (raw_Quantity r) * p) (raw_UnitPrice r))"

text \<open>The fact row of a clean record whose three keys are found in the dimensions.\<close>

definition resolve :: "database \<Rightarrow> clean_record \<Rightarrow> fact_row option" where
  "resolve db r =
     (case (select_customer (CustomerID r) db, select_product (StockCode r) db,
            select_date (dt_date (InvoiceDate r)) db) of
        (Some cid, Some pid, Some did) \<Rightarrow> Some (fact_of r cid pid did)
      | _ \<Rightarrow> None)"

text \<open>The entry of the statistics' error list that a stage writes when it fails.\<close>

fun error_of :: "stage \<Rightarrow> error_entry option" where
  "error_of Connect = Some Connection_error"
| "error_of Extract = Some Extraction_error"
| "error_of Transform = Some Transformation_error"
| "error_of LoadDimensions = Some Dimension_load_error"
| "error_of LoadFacts = Some Fact_load_error"
| "error_of RefreshAggregates = None"
| "error_of Validate = None"

section \<open>Example data\<close>

text \<open>A reading of the timestamps by table: it raises on a cell the table lacks.\<close>

definition read_table :: "(string \<times> timestamp) list \<Rightarrow> string \<Rightarrow> timestamp" where
  "read_table tbl s = (case map_of tbl s of None \<Rightarrow> ((0, 0, 0), 0, 0, 0) | Some t \<Rightarrow> t)"

definition parse_table :: "(string \<times> timestamp) list \<Rightarrow> datetime_parser" where
  "parse_table tbl col =
     (if list_all (\<lambda>s. map_of tbl s \<noteq> None) col then Some (read_table tbl) else None)"

definition example_dates :: "(string \<times> timestamp) list" where
  "example_dates = [(''2010-12-01 08:26'', ((2010, 12, 1), 8, 26, 0))]"

definition row_a :: raw_record where
  "row_a =
     \<lparr> raw_InvoiceNo = Some ''1001'', raw_StockCode = ''85123A'',
       raw_Description = Some '' white heart '', raw_Quantity = 3,
       raw_InvoiceDate = ''2010-12-01 08:26'', raw_UnitPrice = Some (5 / 2),
       raw_CustomerID = Some ''101'', raw_Country = Some ''UK'' \<rparr>"

definition clean_a :: clean_record where
  "clean_a =
     \<lparr> InvoiceNo = Some ''1001'', StockCode = ''85123A'',
       Description = Some ''WHITE HEART'', Quantity = 3,
       InvoiceDate = ((2010, 12, 1), 8, 26, 0), UnitPrice = Some (5 / 2),
       CustomerID = 101, Country = Some ''UK'', TotalAmount = Some (15 / 2),
       Year = 2010, Month = 12, Day = 1, DayOfWeek = 2, Hour = 8 \<rparr>"

definition row_c :: raw_record where
  "row_c = row_a \<lparr> raw_InvoiceNo := Some ''1002'', raw_CustomerID := None \<rparr>"

definition row_d :: raw_record where
  "row_d = row_a \<lparr> raw_InvoiceNo := Some ''C1001'' \<rparr>"

definition example_rows :: "raw_record list" where
  "example_rows = [row_a, row_a, row_c, row_d]"

definition row_blank :: raw_record where
  "row_blank = row_a \<lparr> raw_Description := Some ''   '' \<rparr>"

text \<open>The object after \<^verbatim>\<open>extract\<close> has read the given rows, on an empty warehouse.\<close>

definition extracted :: "raw_record list \<Rightarrow> etl" where
  "extracted rows = snd (extract_csv (Some rows) (init (fresh_session empty_database)))"

section \<open>Closed forms used in the proofs\<close>

text \<open>A statement executed without a fault, a commit without a fault, and the session
  that a fault-free \<^verbatim>\<open>load_dimensions\<close> and \<^verbatim>\<open>load_facts\<close> leave.\<close>

definition stepped :: "('a \<Rightarrow> session \<Rightarrow> session) \<Rightarrow> 'a \<Rightarrow> session \<Rightarrow> session" where
  "stepped stmt r c = stmt r (c \<lparr> calls := Suc (calls c) \<rparr>)"

definition committed :: "session \<Rightarrow> session" where
  "committed c = c \<lparr> calls := Suc (calls c), saved := live c \<rparr>"

definition dimensions_loaded :: "clean_record list \<Rightarrow> session \<Rightarrow> session" where
  "dimensions_loaded df c =
     committed (fold (stepped insert_product) (products_frame df)
       (committed (fold (stepped insert_customer) (customers_frame df)
         (committed (fold (stepped insert_date) (dates_frame df) (cursor c))))))"

definition facts_loaded :: "clean_record list \<Rightarrow> session \<Rightarrow> session" where
  "facts_loaded df c =
     committed (fold (stepped insert_facts)
       (paginate 1000 (present (map (resolve (live c)) df)))
       ((cursor c) \<lparr> calls := 3 * length df \<rparr>))"

text \<open>The stages of a run up to a given one, in the order of \<^verbatim>\<open>run\<close>.\<close>

fun stages_through :: "stage \<Rightarrow> stage list" where
  "stages_through Connect = [Connect]"
| "stages_through Extract = [Connect, Extract]"
| "stages_through Transform = [Connect, Extract, Transform]"
| "stages_through LoadDimensions = [Connect, Extract, Transform, LoadDimensions]"
| "stages_through LoadFacts = [Connect, Extract, Transform, LoadDimensions, LoadFacts]"
| "stages_through RefreshAggregates =
     [Connect, Extract, Transform, LoadDimensions, LoadFacts, RefreshAggregates]"
| "stages_through Validate =
     [Connect, Extract, Transform, LoadDimensions, LoadFacts, RefreshAggregates, Validate]"

section \<open>More example data\<close>

text \<open>An object holding a clean frame, on an empty warehouse.\<close>

definition with_clean :: "clean_record list \<Rightarrow> etl" where
  "with_clean df = (init (fresh_session empty_database)) \<lparr> df_clean := Some df \<rparr>"

text \<open>Two clean records of one item code with different descriptions.\<close>

definition clean_old :: clean_record where
  "clean_old = clean_a \<lparr> Description := Some ''OLD HEART'' \<rparr>"

definition clean_new :: clean_record where
  "clean_new = clean_a \<lparr> InvoiceNo := Some ''1002'', Description := Some ''NEW HEART'' \<rparr>"

text \<open>The warehouse after the dimensions of \<open>clean_a\<close> have been loaded, the fact row
  of \<open>clean_a\<close>, a clean record whose item code the warehouse lacks, and an object
  holding a clean frame on that warehouse.\<close>

definition example_warehouse :: database where
  "example_warehouse =
     \<lparr> dim_dates =
         [\<lparr> full_date = (2010, 12, 1), year = 2010, quarter = 4, month = 12,
            month_name = ''December'', week = 48, day_of_month = 1, day_of_week = 2,
            day_name = ''Wednesday'', is_weekend = False, date_id = 1 \<rparr>],
       dim_customers =
         [\<lparr> customer_id = 101, country = Some ''UK'',
            first_purchase_date = ((2010, 12, 1), 8, 26, 0),
            last_purchase_date = ((2010, 12, 1), 8, 26, 0), total_orders = 1,
            lifetime_value = 15 / 2, updated_at = None \<rparr>],
       dim_products =
         [\<lparr> stock_code = ''85123A'', description = Some ''WHITE HEART'',
            unit_price = Some (5 / 2), product_id = 1 \<rparr>],
       fact_transactions = [], mv_monthly_metrics = [] \<rparr>"

definition fact_a :: fact_row where
  "fact_a =
     \<lparr> fact_invoice_no = Some ''1001'', fact_customer_id = 101, fact_product_id = 1,
       fact_date_id = 1, fact_invoice_date = ((2010, 12, 1), 8, 26, 0), fact_quantity = 3,
       fact_unit_price = Some (5 / 2) \<rparr>"

definition clean_unknown :: clean_record where
  "clean_unknown = clean_a \<lparr> StockCode := ''UNKNOWN'' \<rparr>"

definition at_warehouse :: "clean_record list \<Rightarrow> etl" where
  "at_warehouse df =
     (init (fresh_session example_warehouse))
       \<lparr> df_clean := Some df, stats := init_stats \<lparr> rows_after_cleaning := length df \<rparr> \<rparr>"

section \<open>Lemmas on the cleaning rules\<close>

lemma set_drop_duplicates_seen: "set (drop_duplicates_seen seen xs) = set xs - set seen"
  by (induction xs arbitrary: seen) auto

lemma distinct_drop_duplicates_seen: "distinct (drop_duplicates_seen seen xs)"
  by (induction xs arbitrary: seen) (auto simp: set_drop_duplicates_seen)

lemma subseq_drop_duplicates_seen: "subseq (drop_duplicates_seen seen xs) xs"
  by (induction xs arbitrary: seen) auto

lemma drop_duplicates_seen_id:
  "drop_duplicates_seen seen xs = xs \<longleftrightarrow> distinct xs \<and> set xs \<inter> set seen = {}"
proof (induction xs arbitrary: seen)
  case Nil
  show ?case by simp
next
  case (Cons x xs)
  have "length (drop_duplicates_seen seen xs) \<le> length xs"
    using subseq_drop_duplicates_seen [of seen xs] by (rule list_emb_length)
  then have "drop_duplicates_seen seen xs \<noteq> x # xs"
    by (metis impossible_Cons)
  with Cons show ?case by auto
qed

lemma subseq_same_length_eq: "subseq ys xs \<Longrightarrow> length ys = length xs \<longleftrightarrow> ys = xs"
  using subseq_same_length by auto

lemma convert_rows_all2:
  "convert_rows f rs = Some xs \<Longrightarrow> list_all2 (\<lambda>r x. convert_row f r = Some x) rs xs"
  by (induction rs arbitrary: xs) (auto split: option.splits)

lemma filter_all2:
  "list_all2 R rs xs \<Longrightarrow> (\<And>r x. R r x \<Longrightarrow> P x = Q r)
     \<Longrightarrow> list_all2 R (filter Q rs) (filter P xs)"
  by (induction rule: list_all2_induct) auto

lemma convert_row_derived:
  "convert_row f r = Some x \<Longrightarrow> derived_from f r (clean_text (add_features x))"
  by (auto simp: convert_row_def derived_from_def clean_text_def add_features_def
        row.defs clean_record.defs split: option.splits)

lemma convert_row_keep:
  "convert_row f r = Some x \<Longrightarrow>
     (\<not> is_cancelled x \<and> 0 < Quantity x \<and> positive_price (UnitPrice x) \<and> Quantity x \<le> 10000)
       = (\<not> (case raw_InvoiceNo r of None \<Rightarrow> False | Some s \<Rightarrow> startswith s ''C'')
          \<and> 0 < raw_Quantity r \<and> positive_price (raw_UnitPrice r) \<and> raw_Quantity r \<le> 10000)"
  by (auto simp: convert_row_def is_cancelled_def split: option.splits)

lemma quality_filters_conj:
  "quality_filters df =
     filter (\<lambda>x. \<not> is_cancelled x \<and> 0 < Quantity x \<and> positive_price (UnitPrice x)
                  \<and> Quantity x \<le> 10000) df"
  by (auto simp: quality_filters_def intro: filter_cong)

lemma dropna_passes:
  "filter (\<lambda>r. \<not> (case raw_InvoiceNo r of None \<Rightarrow> False | Some s \<Rightarrow> startswith s ''C'')
          \<and> 0 < raw_Quantity r \<and> positive_price (raw_UnitPrice r) \<and> raw_Quantity r \<le> 10000)
     (dropna_Description (dropna_CustomerID xs)) = filter passes_filters xs"
  by (auto simp: dropna_Description_def dropna_CustomerID_def passes_filters_def
        intro: filter_cong)

lemma clean_frame_rows:
  assumes "clean_frame td raw = Some df"
  shows "\<exists>f. list_all2 (derived_from f) (filter passes_filters (drop_duplicates raw)) df"
proof -
  let ?kept = "dropna_Description (dropna_CustomerID (drop_duplicates raw))"
  from assms obtain xs where xs: "convert_types td ?kept = Some xs"
    and df: "df = map (clean_text \<circ> add_features) (quality_filters xs)"
    by (auto simp: clean_frame_def split: option.splits)
  from xs obtain f where "convert_rows f ?kept = Some xs"
    by (auto simp: convert_types_def split: option.splits)
  then have conv: "list_all2 (\<lambda>r x. convert_row f r = Some x) ?kept xs"
    by (rule convert_rows_all2)
  have "list_all2 (\<lambda>r x. convert_row f r = Some x)
          (filter passes_filters (drop_duplicates raw)) (quality_filters xs)"
    unfolding quality_filters_conj dropna_passes [symmetric]
    by (rule filter_all2 [OF conv]) (simp add: convert_row_keep)
  then have "list_all2 (derived_from f) (filter passes_filters (drop_duplicates raw)) df"
    unfolding df by (simp add: list_all2_map2 list_all2_mono convert_row_derived)
  then show ?thesis by (rule exI [of _ f])
qed

lemma subseq_kept: "subseq (filter passes_filters (drop_duplicates raw)) raw"
  unfolding drop_duplicates_def
  by (rule subseq_order.order_trans [OF subseq_filter_left subseq_drop_duplicates_seen])

lemma kept_all_iff:
  "length (filter passes_filters (drop_duplicates raw)) = length raw
     \<longleftrightarrow> distinct raw \<and> (\<forall>r\<in>set raw. passes_filters r)"
proof
  assume len: "length (filter passes_filters (drop_duplicates raw)) = length raw"
  have "length (filter passes_filters (drop_duplicates raw)) \<le> length (drop_duplicates raw)"
    by simp
  moreover have "length (drop_duplicates raw) \<le> length raw"
    unfolding drop_duplicates_def using subseq_drop_duplicates_seen by (rule list_emb_length)
  ultimately have l2: "length (drop_duplicates raw) = length raw"
    using len by linarith
  have "subseq (drop_duplicates raw) raw"
    unfolding drop_duplicates_def by (rule subseq_drop_duplicates_seen)
  then have dd: "drop_duplicates raw = raw"
    using l2 by (rule subseq_same_length)
  then have "distinct raw"
    using distinct_drop_duplicates_seen [of "[]" raw] by (simp add: drop_duplicates_def)
  moreover have "filter passes_filters raw = raw"
    using len dd subseq_same_length [OF subseq_filter_left, of passes_filters raw] by simp
  then have "\<forall>r\<in>set raw. passes_filters r"
    by (simp add: filter_id_conv)
  ultimately show "distinct raw \<and> (\<forall>r\<in>set raw. passes_filters r)" ..
next
  assume "distinct raw \<and> (\<forall>r\<in>set raw. passes_filters r)"
  then have "drop_duplicates raw = raw" "filter passes_filters raw = raw"
    by (simp_all add: drop_duplicates_def drop_duplicates_seen_id)
  then show "length (filter passes_filters (drop_duplicates raw)) = length raw"
    by simp
qed

lemma transform_True:
  assumes "transform td s = (True, s')"
  shows "\<exists>raw df. df_raw s = Some raw \<and> raw \<noteq> [] \<and> clean_frame td raw = Some df
           \<and> s' = log_line Transform True
                 (s \<lparr> df_clean := Some df,
                      stats := (stats s) \<lparr> rows_after_cleaning := length df \<rparr> \<rparr>)"
  using assms
  by (auto simp: transform_def Let_def append_error_def log_line_def
        split: option.splits if_splits)

subsection \<open>The example rows, evaluated\<close>

lemmas frame_eval =
  clean_frame_def drop_duplicates_def dropna_CustomerID_def dropna_Description_def
  convert_types_def convert_row_def convert_CustomerID_def astype_int_def py_int_def
  strip_def isspace_def isdigit_def digits_value_def parse_table_def read_table_def
  example_dates_def
  quality_filters_def is_cancelled_def startswith_def positive_price_def
  add_features_def clean_text_def upper_def upper_char_def char_of_eq_iff
  row_a_def row_c_def row_d_def row_blank_def example_rows_def clean_a_def
  row.defs clean_record.defs
  dt_date_def dt_year_def dt_month_def dt_day_def dt_hour_def dt_dayofweek_def
  century_term_def table_at_def

lemma example_clean_frame:
  "clean_frame (parse_table example_dates) example_rows = Some [clean_a]"
  by (simp add: frame_eval)

lemma blank_clean_frame:
  "clean_frame (parse_table example_dates) [row_blank] = Some [clean_a \<lparr> Description := Some [] \<rparr>]"
  by (simp add: frame_eval)

lemma extracted_simps:
  "df_raw (extracted rows) = Some rows"
  "rows_extracted (stats (extracted rows)) = length rows"
  "extract_csv (Some rows) (init (fresh_session empty_database)) = (True, extracted rows)"
  by (simp_all add: extracted_def extract_csv_def log_line_def)

lemma transform_clean:
  "df_raw s = Some raw \<Longrightarrow> raw \<noteq> [] \<Longrightarrow> clean_frame td raw = Some df \<Longrightarrow>
     transform td s = (True, log_line Transform True
       (s \<lparr> df_clean := Some df, stats := (stats s) \<lparr> rows_after_cleaning := length df \<rparr> \<rparr>))"
  by (simp add: transform_def)

lemma example_rows_nonempty: "example_rows \<noteq> []"
  by (simp add: example_rows_def)

lemmas example_transform =
  transform_clean [OF extracted_simps(1) example_rows_nonempty example_clean_frame]

section \<open>Claims on transform\<close>

text \<open>
  C1. Every record of the clean frame that \<^verbatim>\<open>transform\<close> stores satisfies the
  cleaning predicates at once: its description is present, its invoice id does not
  start with \<open>C\<close>, its quantity is above 0 and at most 10000, its unit price is above
  0, and it is a raw row that passes the filters, converted (the customer id read as an
  integer) and normalised, with no value repaired. The description may be empty: a raw
  description of blanks only passes \<^verbatim>\<open>dropna\<close> and is stripped to the empty text.
\<close>

theorem transform_output_predicates:
  assumes run: "transform to_datetime s = (True, s')"
    and raw: "df_raw s = Some raw"
    and df: "df_clean s' = Some df"
    and c: "c \<in> set df"
  shows "(\<exists>d. Description c = Some d) \<and> \<not> is_cancelled c
         \<and> 0 < Quantity c \<and> Quantity c \<le> 10000
         \<and> (\<exists>p. UnitPrice c = Some p \<and> 0 < p)
         \<and> (\<exists>f r. r \<in> set raw \<and> passes_filters r \<and> derived_from f r c)"
proof -
  from transform_True [OF run] raw df
  have "clean_frame to_datetime raw = Some df"
    by (auto simp: log_line_def)
  then obtain f where
    f: "list_all2 (derived_from f) (filter passes_filters (drop_duplicates raw)) df"
    using clean_frame_rows by blast
  from c obtain i where i: "i < length df" "df ! i = c"
    by (auto simp: in_set_conv_nth)
  define r where "r = filter passes_filters (drop_duplicates raw) ! i"
  have len: "length (filter passes_filters (drop_duplicates raw)) = length df"
    using f by (rule list_all2_lengthD)
  have d: "derived_from f r c"
    using f i unfolding r_def by (auto simp: list_all2_conv_all_nth)
  have "r \<in> set (filter passes_filters (drop_duplicates raw))"
    unfolding r_def using i len by (simp del: set_filter)
  then have r: "r \<in> set raw" "passes_filters r"
    by (auto simp: drop_duplicates_def set_drop_duplicates_seen)
  from d r(2) have "(\<exists>d. Description c = Some d) \<and> \<not> is_cancelled c
         \<and> 0 < Quantity c \<and> Quantity c \<le> 10000
         \<and> (\<exists>p. UnitPrice c = Some p \<and> 0 < p)"
    by (auto simp: derived_from_def passes_filters_def is_cancelled_def positive_price_def
          split: option.splits)
  with d r show ?thesis by blast
qed

text \<open>C1, at the example rows: the one record kept satisfies the predicates.\<close>

theorem transform_output_predicates_witness:
  "transform (parse_table example_dates) (extracted example_rows)
     = (True, snd (transform (parse_table example_dates) (extracted example_rows)))
   \<and> df_raw (extracted example_rows) = Some example_rows
   \<and> df_clean (snd (transform (parse_table example_dates) (extracted example_rows)))
       = Some [clean_a]
   \<and> clean_a \<in> set [clean_a]
   \<and> (\<exists>d. Description clean_a = Some d) \<and> \<not> is_cancelled clean_a
   \<and> 0 < Quantity clean_a \<and> Quantity clean_a \<le> 10000
   \<and> (\<exists>p. UnitPrice clean_a = Some p \<and> 0 < p)
   \<and> (\<exists>f r. r \<in> set example_rows \<and> passes_filters r \<and> derived_from f r clean_a)"
proof -
  let ?s = "extracted example_rows"
  let ?t = "transform (parse_table example_dates) ?s"
  have t: "?t = (True, snd ?t)" and df: "df_clean (snd ?t) = Some [clean_a]"
    by (simp_all add: example_transform log_line_def)
  have c: "clean_a \<in> set [clean_a]"
    by simp
  show ?thesis
    using transform_output_predicates [OF t extracted_simps(1) df c] t df extracted_simps(1) c
    by blast
qed

text \<open>C1 as stated fails: the clean record of a row whose description is three
  blanks has the empty description.\<close>

theorem blank_description_kept:
  "fst (transform (parse_table example_dates) (extracted [row_blank]))
   \<and> map_option (map Description)
        (df_clean (snd (transform (parse_table example_dates) (extracted [row_blank]))))
       = Some [Some []]"
  by (simp add: transform_clean [OF extracted_simps(1) _ blank_clean_frame] log_line_def)

text \<open>
  C6. After \<^verbatim>\<open>extract\<close> and a successful \<^verbatim>\<open>transform\<close>, \<open>rows_after_cleaning\<close>
  is at most \<open>rows_extracted\<close>, with equality exactly when the raw rows are distinct
  and each passes every filter; and the clean frame is a subsequence of the raw rows,
  each converted and normalised: no row is invented.
\<close>

theorem retention_monotone:
  assumes ex: "extract_csv source s0 = (True, s1)"
    and tr: "transform to_datetime s1 = (True, s2)"
  shows "\<exists>raw df f rows.
           source = Some raw \<and> df_clean s2 = Some df
           \<and> rows_extracted (stats s2) = length raw
           \<and> rows_after_cleaning (stats s2) = length df
           \<and> rows_after_cleaning (stats s2) \<le> rows_extracted (stats s2)
           \<and> (rows_after_cleaning (stats s2) = rows_extracted (stats s2)
                \<longleftrightarrow> distinct raw \<and> (\<forall>r\<in>set raw. passes_filters r))
           \<and> subseq rows raw \<and> list_all2 (derived_from f) rows df"
proof -
  from ex obtain raw where src: "source = Some raw"
    and s1: "s1 = log_line Extract True
               (s0 \<lparr> df_raw := Some raw,
                     stats := (stats s0) \<lparr> rows_extracted := length raw \<rparr> \<rparr>)"
    by (auto simp: extract_csv_def split: option.splits)
  from transform_True [OF tr] s1 obtain df where
    cf: "clean_frame to_datetime raw = Some df"
    and s2: "s2 = log_line Transform True
               (s1 \<lparr> df_clean := Some df,
                     stats := (stats s1) \<lparr> rows_after_cleaning := length df \<rparr> \<rparr>)"
    by (auto simp: log_line_def)
  from cf obtain f where
    f: "list_all2 (derived_from f) (filter passes_filters (drop_duplicates raw)) df"
    using clean_frame_rows by blast
  have len: "length df = length (filter passes_filters (drop_duplicates raw))"
    using f by (simp add: list_all2_lengthD)
  have le: "length df \<le> length raw"
    unfolding len using subseq_kept by (rule list_emb_length)
  have st: "rows_extracted (stats s2) = length raw" "rows_after_cleaning (stats s2) = length df"
    "df_clean s2 = Some df"
    by (simp_all add: s1 s2 log_line_def)
  show ?thesis
    using src st le f subseq_kept [of raw] kept_all_iff [of raw] len
    by (intro exI [of _ raw] exI [of _ df] exI [of _ f]
          exI [of _ "filter passes_filters (drop_duplicates raw)"]) simp
qed

text \<open>C6, at the example rows.\<close>

theorem retention_monotone_witness:
  "extract_csv (Some example_rows) (init (fresh_session empty_database))
     = (True, extracted example_rows)
   \<and> transform (parse_table example_dates) (extracted example_rows)
     = (True, snd (transform (parse_table example_dates) (extracted example_rows)))
   \<and> (\<exists>raw df f rows.
         Some example_rows = Some raw
         \<and> df_clean (snd (transform (parse_table example_dates) (extracted example_rows)))
             = Some df
         \<and> rows_extracted
              (stats (snd (transform (parse_table example_dates) (extracted example_rows))))
             = length raw
         \<and> rows_after_cleaning
              (stats (snd (transform (parse_table example_dates) (extracted example_rows))))
             = length df
         \<and> rows_after_cleaning
              (stats (snd (transform (parse_table example_dates) (extracted example_rows))))
             \<le> rows_extracted
                  (stats (snd (transform (parse_table example_dates) (extracted example_rows))))
         \<and> subseq rows raw \<and> list_all2 (derived_from f) rows df)"
proof -
  let ?s = "extracted example_rows"
  let ?t = "transform (parse_table example_dates) ?s"
  have t: "?t = (True, snd ?t)"
    by (simp add: example_transform)
  show ?thesis
    using retention_monotone [OF extracted_simps(3) t] t extracted_simps(3) [of example_rows]
    by blast
qed

section \<open>Lemmas on the storage calls and load_dimensions\<close>

lemma execute_rows_Done:
  "execute_rows fault stmt rows c = Done u c' \<Longrightarrow> c' = fold (stepped stmt) rows c"
  by (induction rows arbitrary: c)
     (auto simp: execute_def stepped_def split: if_splits outcome.splits)

lemma execute_rows_no_fault:
  "\<forall>k. \<not> fault k \<Longrightarrow> execute_rows fault stmt rows c = Done () (fold (stepped stmt) rows c)"
  by (induction rows arbitrary: c) (auto simp: execute_def stepped_def)

lemma commit_Done: "commit fault c = Done u c' \<Longrightarrow> c' = committed c"
  by (auto simp: commit_def committed_def split: if_splits)

lemma commit_no_fault: "\<forall>k. \<not> fault k \<Longrightarrow> commit fault c = Done () (committed c)"
  by (simp add: commit_def committed_def)

lemma load_dimensions_True:
  assumes "load_dimensions fault s = (True, s')" and "df_clean s = Some df"
  shows "s' = log_line LoadDimensions True
           (s \<lparr> conn := dimensions_loaded df (conn s),
                 stats := (stats s) \<lparr> dates_loaded := length (dates_frame df),
                    customers_loaded := length (customers_frame df),
                    products_loaded := length (products_frame df) \<rparr> \<rparr>)"
  using assms
  by (auto simp: load_dimensions_def dimensions_failed_def Let_def dimensions_loaded_def
        dest!: execute_rows_Done commit_Done split: outcome.splits)

lemma load_dimensions_no_fault:
  assumes "\<forall>k. \<not> fault k" and "df_clean s = Some df"
  shows "load_dimensions fault s = (True, log_line LoadDimensions True
           (s \<lparr> conn := dimensions_loaded df (conn s),
                 stats := (stats s) \<lparr> dates_loaded := length (dates_frame df),
                    customers_loaded := length (customers_frame df),
                    products_loaded := length (products_frame df) \<rparr> \<rparr>))"
  using assms
  by (simp add: load_dimensions_def Let_def dimensions_loaded_def
        execute_rows_no_fault commit_no_fault)

lemma load_dimensions_False:
  assumes "load_dimensions fault s = (False, s')"
  shows "Dimension_load_error \<in> set (errors (stats s'))
         \<and> logged s' = logged s @ [(LoadDimensions, False)]
         \<and> rows_extracted (stats s') = rows_extracted (stats s)"
  using assms
  by (auto simp: load_dimensions_def dimensions_failed_def Let_def append_error_def
        log_line_def split: outcome.splits option.splits)

lemma committed_simps:
  "live (committed c) = live c" "saved (committed c) = live c"
  "date_seq (committed c) = date_seq c" "product_seq (committed c) = product_seq c"
  "now (committed c) = now c" "is_open (committed c) = is_open c"
  by (simp_all add: committed_def)

lemma cursor_simps:
  "live (cursor c) = live c" "saved (cursor c) = saved c"
  "date_seq (cursor c) = date_seq c" "product_seq (cursor c) = product_seq c"
  "now (cursor c) = now c" "is_open (cursor c) = is_open c" "calls (cursor c) = 0"
  by (simp_all add: cursor_def)

lemma fold_insert_date_frame:
  "dim_customers (live (fold (stepped insert_date) vs c)) = dim_customers (live c)"
  "dim_products (live (fold (stepped insert_date) vs c)) = dim_products (live c)"
  "fact_transactions (live (fold (stepped insert_date) vs c)) = fact_transactions (live c)"
  "saved (fold (stepped insert_date) vs c) = saved c"
  by (induction vs arbitrary: c) (simp_all add: stepped_def insert_date_def)

lemma fold_insert_customer_frame:
  "dim_dates (live (fold (stepped insert_customer) vs c)) = dim_dates (live c)"
  "dim_products (live (fold (stepped insert_customer) vs c)) = dim_products (live c)"
  "fact_transactions (live (fold (stepped insert_customer) vs c)) = fact_transactions (live c)"
  "saved (fold (stepped insert_customer) vs c) = saved c"
  by (induction vs arbitrary: c) (simp_all add: stepped_def insert_customer_def)

lemma fold_insert_product_frame:
  "dim_dates (live (fold (stepped insert_product) vs c)) = dim_dates (live c)"
  "dim_customers (live (fold (stepped insert_product) vs c)) = dim_customers (live c)"
  "fact_transactions (live (fold (stepped insert_product) vs c)) = fact_transactions (live c)"
  "saved (fold (stepped insert_product) vs c) = saved c"
  by (induction vs arbitrary: c) (simp_all add: stepped_def insert_product_def)

lemma upsert_date_keys:
  "full_date ` set (upsert_date v i table) = insert (full_date v) (full_date ` set table)"
  by (auto simp: upsert_date_def dates_df_row.defs)

lemma fold_insert_date_keys:
  "full_date ` set (dim_dates (live (fold (stepped insert_date) vs c)))
     = full_date ` set (dim_dates (live c)) \<union> full_date ` set vs"
  by (induction vs arbitrary: c)
     (simp_all add: stepped_def insert_date_def upsert_date_keys)

lemma fold_insert_date_present:
  "full_date ` set vs \<subseteq> full_date ` set (dim_dates (live c))
     \<Longrightarrow> dim_dates (live (fold (stepped insert_date) vs c)) = dim_dates (live c)"
  by (induction vs arbitrary: c) (simp_all add: stepped_def insert_date_def upsert_date_def)

lemma dimensions_loaded_dates:
  "dim_dates (live (dimensions_loaded df c))
     = dim_dates (live (fold (stepped insert_date) (dates_frame df) (cursor c)))"
  "saved (dimensions_loaded df c) = live (dimensions_loaded df c)"
  by (simp_all add: dimensions_loaded_def committed_simps fold_insert_product_frame
        fold_insert_customer_frame)

lemma length_unique: "length (unique xs) = card (set xs)"
proof -
  have "distinct (unique xs)" "set (unique xs) = set xs"
    by (simp_all add: unique_def distinct_drop_duplicates_seen set_drop_duplicates_seen)
  then show ?thesis
    by (metis distinct_card)
qed

lemma set_unique: "set (unique xs) = set xs"
  by (simp add: unique_def set_drop_duplicates_seen)

lemma length_frames:
  "length (dates_frame df) = card ((\<lambda>r. dt_date (InvoiceDate r)) ` set df)"
  "length (customers_frame df) = card (CustomerID ` set df)"
  "length (products_frame df) = card (StockCode ` set df)"
  by (simp_all add: dates_frame_def customers_frame_def products_frame_def length_unique
        length_remdups_card_conv)

lemma full_date_dates_frame:
  "full_date ` set (dates_frame df) = (\<lambda>r. dt_date (InvoiceDate r)) ` set df"
  by (auto simp: dates_frame_def set_unique dates_df_of_def image_iff)

lemma count_key_distinct:
  "distinct (map f xs) \<Longrightarrow> k \<in> f ` set xs \<Longrightarrow> length (filter (\<lambda>r. f r = k) xs) = 1"
proof (induction xs)
  case Nil
  then show ?case by simp
next
  case (Cons x xs)
  show ?case
  proof (cases "f x = k")
    case True
    from Cons.prems(1) have out: "f x \<notin> f ` set xs"
      by simp
    have "\<forall>r\<in>set xs. f r \<noteq> k"
    proof
      fix r
      assume "r \<in> set xs"
      then have "f r \<in> f ` set xs"
        by (rule imageI)
      with out True show "f r \<noteq> k"
        by metis
    qed
    then have "filter (\<lambda>r. f r = k) xs = []"
      by (simp add: filter_empty_conv)
    with True show ?thesis by simp
  next
    case False
    with Cons show ?thesis by auto
  qed
qed

lemma count_key_absent:
  "k \<notin> f ` set xs \<Longrightarrow> filter (\<lambda>r. f r = k) xs = []"
  by (auto simp: filter_empty_conv)

lemma insert_date_table:
  "dim_dates (live (insert_date v c)) = upsert_date v (date_seq c) (dim_dates (live c))"
  by (simp add: insert_date_def)

lemma insert_date_again:
  "0 < n \<Longrightarrow> dim_dates (live ((insert_date v ^^ n) c)) = dim_dates (live (insert_date v c))"
proof (induction n)
  case 0
  then show ?case by simp
next
  case (Suc n)
  show ?case
  proof (cases "n = 0")
    case True
    then show ?thesis by simp
  next
    case False
    with Suc have eq: "dim_dates (live ((insert_date v ^^ n) c)) = dim_dates (live (insert_date v c))"
      by simp
    have "full_date v \<in> full_date ` set (dim_dates (live (insert_date v c)))"
      by (simp add: insert_date_table upsert_date_keys)
    then show ?thesis
      by (simp add: insert_date_table eq upsert_date_def)
  qed
qed

text \<open>
  C7. The date upsert inserts a row only when the table has no row of that calendar
  date, and never changes an existing row; on a table that holds every date at most
  once (its unique key), loading the same date any number of times gives the table of
  a single load, with exactly one row of that date.
\<close>

theorem date_upsert_idempotent:
  assumes "distinct (map full_date (dim_dates (live c)))" and "0 < n"
  shows "(full_date v \<in> full_date ` set (dim_dates (live c))
            \<longrightarrow> dim_dates (live (insert_date v c)) = dim_dates (live c))
         \<and> (full_date v \<notin> full_date ` set (dim_dates (live c))
            \<longrightarrow> dim_dates (live (insert_date v c))
                 = dim_dates (live c) @ [dates_df_row.extend v (dim_dates_row.fields (date_seq c))])
         \<and> dim_dates (live ((insert_date v ^^ n) c)) = dim_dates (live (insert_date v c))
         \<and> length (filter (\<lambda>r. full_date r = full_date v)
                     (dim_dates (live ((insert_date v ^^ n) c)))) = 1"
proof -
  have one: "length (filter (\<lambda>r. full_date r = full_date v)
                     (dim_dates (live (insert_date v c)))) = 1"
  proof (cases "full_date v \<in> full_date ` set (dim_dates (live c))")
    case True
    then show ?thesis
      using count_key_distinct [OF assms(1), of "full_date v"]
      by (simp add: insert_date_table upsert_date_def)
  next
    case False
    then show ?thesis
      using count_key_absent [of "full_date v" full_date "dim_dates (live c)"]
      by (simp add: insert_date_table upsert_date_def dates_df_row.defs)
  qed
  show ?thesis
    using one insert_date_again [OF assms(2), of v c]
    by (simp add: insert_date_table upsert_date_def)
qed

text \<open>
  C10. After a successful \<^verbatim>\<open>load_dimensions\<close> the three statistics are the
  numbers of distinct dates, customer ids and item codes of the clean frame. They are
  not the numbers of rows inserted: a second load of the same frame reports the same
  \<open>dates_loaded\<close> and leaves the date table as it was.
\<close>

theorem loaded_counts_are_distinct_keys:
  assumes first: "load_dimensions fault s = (True, s1)"
    and df: "df_clean s = Some df"
    and again: "load_dimensions fault' s1 = (True, s2)"
  shows "dates_loaded (stats s1) = card ((\<lambda>r. dt_date (InvoiceDate r)) ` set df)
         \<and> customers_loaded (stats s1) = card (CustomerID ` set df)
         \<and> products_loaded (stats s1) = card (StockCode ` set df)
         \<and> dates_loaded (stats s2) = dates_loaded (stats s1)
         \<and> dim_dates (saved (conn s2)) = dim_dates (saved (conn s1))"
proof -
  note s1 = load_dimensions_True [OF first df]
  have df1: "df_clean s1 = Some df"
    by (simp add: s1 df log_line_def)
  note s2 = load_dimensions_True [OF again df1]
  have c1: "conn s1 = dimensions_loaded df (conn s)"
    by (simp add: s1 log_line_def)
  have c2: "conn s2 = dimensions_loaded df (conn s1)"
    by (simp add: s2 log_line_def)
  have "full_date ` set (dates_frame df) \<subseteq> full_date ` set (dim_dates (live (conn s1)))"
    by (simp add: c1 dimensions_loaded_dates fold_insert_date_keys)
  then have "dim_dates (live (conn s2)) = dim_dates (live (conn s1))"
    by (simp add: c2 dimensions_loaded_dates(1) fold_insert_date_present cursor_simps)
  then have tables: "dim_dates (saved (conn s2)) = dim_dates (saved (conn s1))"
    by (simp add: c1 c2 dimensions_loaded_dates(2))
  have "dates_loaded (stats s1) = length (dates_frame df)"
    "customers_loaded (stats s1) = length (customers_frame df)"
    "products_loaded (stats s1) = length (products_frame df)"
    "dates_loaded (stats s2) = length (dates_frame df)"
    by (simp_all add: s1 s2 log_line_def)
  with tables show ?thesis
    by (simp add: length_frames)
qed

lemma update_product_code: "stock_code (update_product v r) = stock_code r"
  by (simp add: update_product_def)

lemma upsert_product_codes:
  "stock_code ` set (upsert_product v i t) = insert (stock_code v) (stock_code ` set t)"
  by (auto simp: upsert_product_def products_df_row.defs update_product_code image_iff)

lemma upsert_product_row:
  "row \<in> set (upsert_product v i t) \<Longrightarrow> stock_code row = stock_code v
     \<Longrightarrow> description row = description v \<and> unit_price row = unit_price v"
proof (cases "stock_code v \<in> stock_code ` set t")
  case True
  assume "row \<in> set (upsert_product v i t)" "stock_code row = stock_code v"
  with True show ?thesis
    by (auto simp: upsert_product_def update_product_def split: if_splits)
next
  case False
  assume row: "row \<in> set (upsert_product v i t)" and code: "stock_code row = stock_code v"
  have "row \<notin> set t"
    using False code by (metis imageI)
  with row False show ?thesis
    by (simp add: upsert_product_def products_df_row.defs)
qed

lemma upsert_product_other:
  "row \<in> set (upsert_product v i t) \<Longrightarrow> stock_code row \<noteq> stock_code v \<Longrightarrow> row \<in> set t"
  by (auto simp: upsert_product_def update_product_def products_df_row.defs
        split: if_splits)

lemma insert_product_table:
  "dim_products (live (stepped insert_product v c))
     = upsert_product v (product_seq c) (dim_products (live c))"
  by (simp add: stepped_def insert_product_def)

lemma fold_insert_product_codes:
  "stock_code ` set (dim_products (live (fold (stepped insert_product) vs c)))
     = stock_code ` set (dim_products (live c)) \<union> stock_code ` set vs"
  by (induction vs arbitrary: c) (simp_all add: insert_product_table upsert_product_codes)

lemma fold_insert_product_rows:
  "distinct (map stock_code vs) \<Longrightarrow> v \<in> set vs
     \<Longrightarrow> row \<in> set (dim_products (live (fold (stepped insert_product) vs c)))
     \<Longrightarrow> stock_code row = stock_code v
     \<Longrightarrow> description row = description v \<and> unit_price row = unit_price v"
proof (induction vs arbitrary: row rule: rev_induct)
  case Nil
  then show ?case by simp
next
  case (snoc x xs)
  let ?c = "fold (stepped insert_product) xs c"
  from snoc.prems(3) have row: "row \<in> set (upsert_product x (product_seq ?c) (dim_products (live ?c)))"
    by (simp add: insert_product_table)
  show ?case
  proof (cases "v = x")
    case True
    with row snoc.prems(4) show ?thesis
      by (simp add: upsert_product_row)
  next
    case False
    with snoc.prems(2) have v: "v \<in> set xs"
      by simp
    with snoc.prems(1) have "stock_code v \<noteq> stock_code x"
      by (auto simp: image_iff)
    with snoc.prems(4) have "stock_code row \<noteq> stock_code x"
      by simp
    with row have "row \<in> set (dim_products (live ?c))"
      by (rule upsert_product_other)
    with snoc.IH [OF _ v this snoc.prems(4)] snoc.prems(1) show ?thesis
      by simp
  qed
qed

lemma products_frame_codes:
  "map stock_code (products_frame df) = sort (remdups (map StockCode df))"
  by (simp add: products_frame_def product_group_def comp_def Let_def)

lemma dimensions_loaded_products:
  "dim_products (saved (dimensions_loaded df c))
     = dim_products (live (fold (stepped insert_product) (products_frame df)
         (committed (fold (stepped insert_customer) (customers_frame df)
           (committed (fold (stepped insert_date) (dates_frame df) (cursor c)))))))"
  by (simp add: dimensions_loaded_def committed_simps)

text \<open>
  C8 as amended. After a successful \<^verbatim>\<open>load_dimensions\<close>, every item code of the
  clean frame has a product row, and each row of that code holds the first description
  present among the frame's records of the code (\<^verbatim>\<open>'first'\<close>) and the mean of their
  unit prices, whatever the row held before.
\<close>

theorem product_row_first_description_mean_price:
  assumes ok: "load_dimensions fault s = (True, s')"
    and df: "df_clean s = Some df"
    and r: "r \<in> set df"
  shows "(\<exists>row\<in>set (dim_products (saved (conn s'))). stock_code row = StockCode r)
         \<and> (\<forall>row\<in>set (dim_products (saved (conn s'))).
               stock_code row = StockCode r \<longrightarrow>
                 description row
                   = agg_first (map Description (filter (\<lambda>x. StockCode x = StockCode r) df))
                 \<and> unit_price row
                   = agg_mean (map UnitPrice (filter (\<lambda>x. StockCode x = StockCode r) df)))"
proof -
  let ?v = "product_group df (StockCode r)"
  have conn: "conn s' = dimensions_loaded df (conn s)"
    by (simp add: load_dimensions_True [OF ok df] log_line_def)
  have v: "?v \<in> set (products_frame df)"
    using r by (simp add: products_frame_def)
  have code: "stock_code ?v = StockCode r"
    by (simp add: product_group_def Let_def)
  have dist: "distinct (map stock_code (products_frame df))"
    by (simp add: products_frame_codes)
  have "StockCode r \<in> stock_code ` set (dim_products (saved (conn s')))"
    using v code unfolding conn dimensions_loaded_products fold_insert_product_codes
    by (metis UnI2 imageI)
  then have ex: "\<exists>row\<in>set (dim_products (saved (conn s'))). stock_code row = StockCode r"
    by auto
  have "\<forall>row\<in>set (dim_products (saved (conn s'))).
          stock_code row = StockCode r \<longrightarrow>
            description row = description ?v \<and> unit_price row = unit_price ?v"
    unfolding conn dimensions_loaded_products
    using fold_insert_product_rows [OF dist v] code by metis
  with ex show ?thesis
    by (simp add: product_group_def Let_def)
qed

lemma with_clean_simps:
  "df_clean (with_clean df) = Some df"
  "conn (with_clean df) = fresh_session empty_database"
  "stats (with_clean df) = init_stats"
  "logged (with_clean df) = []"
  by (simp_all add: with_clean_def init_def)

lemmas load_example = load_dimensions_no_fault [of "\<lambda>k. False", OF _ with_clean_simps(1), simplified]

text \<open>C7, at the empty table: three loads of 2010-12-01 leave one row.\<close>

theorem date_upsert_idempotent_witness:
  "distinct (map full_date (dim_dates (live (fresh_session empty_database))))
   \<and> (0::nat) < 3
   \<and> dim_dates (live ((insert_date (dates_df_of (2010, 12, 1)) ^^ 3)
                        (fresh_session empty_database)))
       = dim_dates (live (insert_date (dates_df_of (2010, 12, 1))
                        (fresh_session empty_database)))
   \<and> length (filter (\<lambda>r. full_date r = full_date (dates_df_of (2010, 12, 1)))
               (dim_dates (live ((insert_date (dates_df_of (2010, 12, 1)) ^^ 3)
                                   (fresh_session empty_database))))) = 1"
proof -
  have d: "distinct (map full_date (dim_dates (live (fresh_session empty_database))))"
    by (simp add: fresh_session_def empty_database_def)
  have n: "(0::nat) < 3"
    by simp
  show ?thesis
    using date_upsert_idempotent [OF d n, of "dates_df_of (2010, 12, 1)"] d n
    by blast
qed

text \<open>C10, at the frame of the one record \<open>clean_a\<close>: both loads report one date.\<close>

theorem loaded_counts_witness:
  "load_dimensions (\<lambda>k. False) (with_clean [clean_a])
     = (True, snd (load_dimensions (\<lambda>k. False) (with_clean [clean_a])))
   \<and> df_clean (with_clean [clean_a]) = Some [clean_a]
   \<and> load_dimensions (\<lambda>k. False) (snd (load_dimensions (\<lambda>k. False) (with_clean [clean_a])))
     = (True, snd (load_dimensions (\<lambda>k. False)
                (snd (load_dimensions (\<lambda>k. False) (with_clean [clean_a])))))
   \<and> dates_loaded (stats (snd (load_dimensions (\<lambda>k. False) (with_clean [clean_a])))) = 1
   \<and> dates_loaded (stats (snd (load_dimensions (\<lambda>k. False)
        (snd (load_dimensions (\<lambda>k. False) (with_clean [clean_a])))))) = 1
   \<and> dim_dates (saved (conn (snd (load_dimensions (\<lambda>k. False)
        (snd (load_dimensions (\<lambda>k. False) (with_clean [clean_a])))))))
     = dim_dates (saved (conn (snd (load_dimensions (\<lambda>k. False) (with_clean [clean_a])))))"
proof -
  let ?s1 = "snd (load_dimensions (\<lambda>k. False) (with_clean [clean_a]))"
  let ?s2 = "snd (load_dimensions (\<lambda>k. False) ?s1)"
  have a: "load_dimensions (\<lambda>k. False) (with_clean [clean_a]) = (True, ?s1)"
    by (simp add: load_example)
  have df1: "df_clean ?s1 = Some [clean_a]"
    by (simp add: load_example log_line_def with_clean_simps)
  have b: "load_dimensions (\<lambda>k. False) ?s1 = (True, ?s2)"
    by (simp add: load_dimensions_no_fault [OF _ df1])
  have "card ((\<lambda>r. dt_date (InvoiceDate r)) ` set [clean_a]) = 1"
    by simp
  then show ?thesis
    using loaded_counts_are_distinct_keys [OF a with_clean_simps(1) b] a b with_clean_simps(1)
    by simp
qed

lemma example_products_frame:
  "products_frame [clean_old, clean_new]
     = [\<lparr> stock_code = ''85123A'', description = Some ''OLD HEART'',
          unit_price = Some (5 / 2) \<rparr>]"
  by (simp add: products_frame_def product_group_def clean_old_def clean_new_def clean_a_def
        agg_mean_def present_def Let_def)

text \<open>C8 as stated fails: of the two records of item 85123A the latest says
  \<open>NEW HEART\<close>, and the product row says \<open>OLD HEART\<close>.\<close>

theorem first_description_wins:
  "fst (load_dimensions (\<lambda>k. False) (with_clean [clean_old, clean_new]))
   \<and> map description (dim_products (saved (conn (snd
        (load_dimensions (\<lambda>k. False) (with_clean [clean_old, clean_new]))))))
       = [Some ''OLD HEART'']
   \<and> Description (last [clean_old, clean_new]) = Some ''NEW HEART''"
proof -
  have "Description (last [clean_old, clean_new]) = Some ''NEW HEART''"
    by (simp add: clean_new_def)
  moreover have "map description (dim_products (saved (conn (snd
        (load_dimensions (\<lambda>k. False) (with_clean [clean_old, clean_new]))))))
       = [Some ''OLD HEART'']"
    by (simp add: load_example log_line_def dimensions_loaded_products example_products_frame
          insert_product_table fold_insert_customer_frame fold_insert_date_frame
          committed_simps cursor_simps with_clean_simps fresh_session_def empty_database_def
          upsert_product_def products_df_row.defs)
  ultimately show ?thesis
    by (simp add: load_example)
qed

text \<open>C8 as amended, at the two records of one item code.\<close>

theorem product_row_witness:
  "load_dimensions (\<lambda>k. False) (with_clean [clean_old, clean_new])
     = (True, snd (load_dimensions (\<lambda>k. False) (with_clean [clean_old, clean_new])))
   \<and> df_clean (with_clean [clean_old, clean_new]) = Some [clean_old, clean_new]
   \<and> clean_new \<in> set [clean_old, clean_new]
   \<and> (\<exists>row\<in>set (dim_products (saved (conn (snd
          (load_dimensions (\<lambda>k. False) (with_clean [clean_old, clean_new])))))).
         stock_code row = StockCode clean_new)"
proof -
  let ?s = "with_clean [clean_old, clean_new]"
  have a: "load_dimensions (\<lambda>k. False) ?s = (True, snd (load_dimensions (\<lambda>k. False) ?s))"
    by (simp add: load_example)
  have r: "clean_new \<in> set [clean_old, clean_new]"
    by simp
  show ?thesis
    using product_row_first_description_mean_price [OF a with_clean_simps(1) r]
      a r with_clean_simps(1)
    by blast
qed

section \<open>Lemmas on load_facts\<close>

lemma present_simps:
  "present [] = []" "present (None # xs) = present xs" "present (Some v # xs) = v # present xs"
  by (simp_all add: present_def)

lemma present_append: "present (xs @ ys) = present xs @ present ys"
  by (simp add: present_def)

lemma length_present: "length (present (map f xs)) = length (filter (\<lambda>x. f x \<noteq> None) xs)"
  by (induction xs) (auto simp: present_simps)

lemma resolve_None_iff:
  "resolve db r = None \<longleftrightarrow>
     select_customer (CustomerID r) db = None \<or> select_product (StockCode r) db = None
     \<or> select_date (dt_date (InvoiceDate r)) db = None"
  by (auto simp: resolve_def split: option.splits)

lemma resolve_rows_Done:
  "resolve_rows fault rows txs c = Done out c' \<Longrightarrow>
     out = txs @ present (map (resolve (live c)) rows)
     \<and> c' = c \<lparr> calls := calls c + 3 * length rows \<rparr>"
proof (induction rows arbitrary: txs c)
  case Nil
  then show ?case by (simp add: present_simps)
next
  case (Cons r rs)
  from Cons.prems show ?case
    by (auto simp: fetchone_def resolve_def present_simps
          split: if_splits option.splits dest!: Cons.IH)
qed

lemma resolve_rows_range:
  "\<forall>k. calls c \<le> k \<and> k < calls c + 3 * length rows \<longrightarrow> \<not> fault k \<Longrightarrow>
     resolve_rows fault rows txs c
       = Done (txs @ present (map (resolve (live c)) rows))
              (c \<lparr> calls := calls c + 3 * length rows \<rparr>)"
proof (induction rows arbitrary: txs c)
  case Nil
  then show ?case by (simp add: present_simps)
next
  case (Cons r rs)
  have f: "\<not> fault (calls c)" "\<not> fault (Suc (calls c))" "\<not> fault (Suc (Suc (calls c)))"
    using Cons.prems by simp_all
  let ?c = "c \<lparr> calls := Suc (Suc (Suc (calls c))) \<rparr>"
  have "\<forall>k. calls ?c \<le> k \<and> k < calls ?c + 3 * length rs \<longrightarrow> \<not> fault k"
    using Cons.prems by simp
  from Cons.IH [OF this] f show ?case
    by (simp add: fetchone_def resolve_def present_simps split: option.splits)
qed

lemma resolve_rows_Raised:
  "resolve_rows fault rows txs c = Raised c' \<Longrightarrow> saved c' = saved c \<and> live c' = live c"
proof (induction rows arbitrary: txs c)
  case Nil
  then show ?case by simp
next
  case (Cons r rs)
  from Cons.prems show ?case
    by (auto simp: fetchone_def split: if_splits option.splits dest!: Cons.IH)
qed

lemma execute_rows_saved:
  assumes "\<And>r c. saved (stmt r c) = saved c"
  shows "execute_rows fault stmt rows c = Raised c' \<Longrightarrow> saved c' = saved c"
  by (induction rows arbitrary: c)
     (auto simp: execute_def assms split: if_splits outcome.splits)

lemma saved_insert_facts: "saved (insert_facts page c) = saved c"
  by (simp add: insert_facts_def)

lemma fold_insert_facts:
  "fact_transactions (live (fold (stepped insert_facts) pages c))
     = fact_transactions (live c) @ concat pages"
  "dim_dates (live (fold (stepped insert_facts) pages c)) = dim_dates (live c)"
  "dim_customers (live (fold (stepped insert_facts) pages c)) = dim_customers (live c)"
  "dim_products (live (fold (stepped insert_facts) pages c)) = dim_products (live c)"
  by (induction pages arbitrary: c) (simp_all add: stepped_def insert_facts_def)

lemma fold_insert_facts_saved: "saved (fold (stepped insert_facts) pages c) = saved c"
  by (induction pages arbitrary: c) (simp_all add: stepped_def insert_facts_def)

lemma concat_paginate: "0 < n \<Longrightarrow> concat (paginate n xs) = xs"
proof (induction n xs rule: paginate.induct)
  case (1 n xs)
  then show ?case
    by (subst paginate.simps) simp
qed

lemma load_facts_True:
  assumes "load_facts fault s = (True, s')" and "df_clean s = Some df"
  shows "s' = log_line LoadFacts True
           (s \<lparr> conn := facts_loaded df (conn s),
                 stats := (stats s) \<lparr> transactions_loaded :=
                   length (present (map (resolve (live (conn s))) df)) \<rparr> \<rparr>)"
  using assms
  by (auto simp: load_facts_def facts_failed_def Let_def facts_loaded_def execute_batch_def
        cursor_simps
        dest!: resolve_rows_Done execute_rows_Done commit_Done split: outcome.splits)

lemma load_facts_no_fault:
  assumes "\<forall>k. \<not> fault k" and "df_clean s = Some df"
  shows "load_facts fault s = (True, log_line LoadFacts True
           (s \<lparr> conn := facts_loaded df (conn s),
                 stats := (stats s) \<lparr> transactions_loaded :=
                   length (present (map (resolve (live (conn s))) df)) \<rparr> \<rparr>))"
  using assms
  by (simp add: load_facts_def Let_def facts_loaded_def execute_batch_def cursor_simps
        resolve_rows_range execute_rows_no_fault commit_no_fault)

lemma load_facts_False:
  assumes "load_facts fault s = (False, s')"
  shows "saved (conn s') = saved (conn s) \<and> live (conn s') = saved (conn s)
         \<and> errors (stats s') = errors (stats s) @ [Fact_load_error]
         \<and> logged s' = logged s @ [(LoadFacts, False)]
         \<and> rows_extracted (stats s') = rows_extracted (stats s)"
proof -
  have r: "facts_failed s c = (False, s') \<Longrightarrow> saved c = saved (conn s) \<Longrightarrow> ?thesis" for c
    by (auto simp: facts_failed_def rollback_def append_error_def log_line_def)
  from assms consider
      (none) "df_clean s = None" "facts_failed s (cursor (conn s)) = (False, s')"
    | (resolve) df c where "resolve_rows fault df [] (cursor (conn s)) = Raised c"
        "facts_failed s c = (False, s')"
    | (batch) df c where
        "execute_rows fault insert_facts
           (paginate 1000 (present (map (resolve (live (conn s))) df)))
           ((cursor (conn s)) \<lparr> calls := 3 * length df \<rparr>) = Raised c"
        "facts_failed s c = (False, s')"
    | (commit) df c where
        "execute_rows fault insert_facts
           (paginate 1000 (present (map (resolve (live (conn s))) df)))
           ((cursor (conn s)) \<lparr> calls := 3 * length df \<rparr>) = Done () c"
        "facts_failed s c = (False, s')"
    by (auto simp: load_facts_def Let_def execute_batch_def cursor_simps commit_def
          split: outcome.splits option.splits if_splits dest!: resolve_rows_Done)
  then show ?thesis
  proof cases
    case none
    show ?thesis by (rule r [OF none(2)]) (simp add: cursor_simps)
  next
    case resolve
    show ?thesis
      using resolve_rows_Raised [OF resolve(1)]
      by (intro r [OF resolve(2)]) (simp add: cursor_simps)
  next
    case batch
    show ?thesis
      using execute_rows_saved [OF saved_insert_facts batch(1)]
      by (intro r [OF batch(2)]) (simp add: cursor_simps)
  next
    case commit
    show ?thesis
      using execute_rows_Done [OF commit(1)]
      by (intro r [OF commit(2)]) (simp add: cursor_simps fold_insert_facts_saved)
  qed
qed

lemma at_warehouse_simps:
  "df_clean (at_warehouse df) = Some df"
  "rows_after_cleaning (stats (at_warehouse df)) = length df"
  "live (conn (at_warehouse df)) = example_warehouse"
  "saved (conn (at_warehouse df)) = example_warehouse"
  "errors (stats (at_warehouse df)) = []"
  by (simp_all add: at_warehouse_def init_def fresh_session_def init_stats_def)

lemma resolve_example:
  "resolve example_warehouse clean_a = Some fact_a"
  "resolve example_warehouse clean_unknown = None"
  by (simp_all add: resolve_def select_customer_def select_product_def select_date_def
        example_warehouse_def clean_a_def clean_unknown_def fact_a_def fact_of_def dt_date_def)

lemma example_facts_empty: "fact_transactions example_warehouse = []"
  by (simp add: example_warehouse_def)

text \<open>
  C4. With no storage fault \<^verbatim>\<open>load_facts\<close> succeeds whatever the lookups find. A
  record with a lookup that finds nothing gives no fact row: the rows inserted are the
  fact rows of the other records, in order. \<open>transactions_loaded\<close> counts those, so
  the records left out are \<open>rows_after_cleaning\<close> minus \<open>transactions_loaded\<close>, and
  no error is recorded.
\<close>

theorem unresolved_records_are_skipped:
  assumes df: "df_clean s = Some df"
    and n: "rows_after_cleaning (stats s) = length df"
    and ok: "\<forall>k. \<not> fault k"
  shows "fst (load_facts fault s)
         \<and> fact_transactions (saved (conn (snd (load_facts fault s))))
             = fact_transactions (live (conn s)) @ present (map (resolve (live (conn s))) df)
         \<and> transactions_loaded (stats (snd (load_facts fault s)))
             = length (filter (\<lambda>r. resolve (live (conn s)) r \<noteq> None) df)
         \<and> rows_after_cleaning (stats (snd (load_facts fault s)))
               - transactions_loaded (stats (snd (load_facts fault s)))
             = length (filter (\<lambda>r. resolve (live (conn s)) r = None) df)
         \<and> errors (stats (snd (load_facts fault s))) = errors (stats s)
         \<and> (\<forall>r. resolve (live (conn s)) r = None \<longleftrightarrow>
                select_customer (CustomerID r) (live (conn s)) = None
                \<or> select_product (StockCode r) (live (conn s)) = None
                \<or> select_date (dt_date (InvoiceDate r)) (live (conn s)) = None)"
proof -
  let ?P = "\<lambda>r. resolve (live (conn s)) r \<noteq> None"
  have "length df = length (filter ?P df) + length (filter (\<lambda>r. \<not> ?P r) df)"
    by (rule sum_length_filter_compl [symmetric])
  then have split: "length df - length (filter ?P df)
      = length (filter (\<lambda>r. resolve (live (conn s)) r = None) df)"
    by simp
  show ?thesis
    using split
    by (simp add: load_facts_no_fault [OF ok df] log_line_def facts_loaded_def committed_simps
          fold_insert_facts concat_paginate cursor_simps n length_present resolve_None_iff)
qed

text \<open>C4, at a frame of two records, the item of one of them unknown to the
  warehouse.\<close>

theorem unresolved_records_witness:
  "df_clean (at_warehouse [clean_a, clean_unknown]) = Some [clean_a, clean_unknown]
   \<and> rows_after_cleaning (stats (at_warehouse [clean_a, clean_unknown]))
       = length [clean_a, clean_unknown]
   \<and> fst (load_facts (\<lambda>k. False) (at_warehouse [clean_a, clean_unknown]))
   \<and> fact_transactions (saved (conn (snd
         (load_facts (\<lambda>k. False) (at_warehouse [clean_a, clean_unknown]))))) = [fact_a]
   \<and> transactions_loaded (stats (snd
         (load_facts (\<lambda>k. False) (at_warehouse [clean_a, clean_unknown])))) = 1
   \<and> rows_after_cleaning (stats (snd
         (load_facts (\<lambda>k. False) (at_warehouse [clean_a, clean_unknown]))))
       - transactions_loaded (stats (snd
         (load_facts (\<lambda>k. False) (at_warehouse [clean_a, clean_unknown])))) = 1
   \<and> errors (stats (snd
         (load_facts (\<lambda>k. False) (at_warehouse [clean_a, clean_unknown])))) = []"
proof -
  have ok: "\<forall>k. \<not> (\<lambda>k::nat. False) k"
    by simp
  show ?thesis
    using unresolved_records_are_skipped
      [of "at_warehouse [clean_a, clean_unknown]" "[clean_a, clean_unknown]" "\<lambda>k. False",
        OF at_warehouse_simps(1,2) ok]
    by (auto simp: at_warehouse_simps resolve_example present_simps example_facts_empty)
qed

text \<open>
  C3 as amended. \<^verbatim>\<open>load_facts\<close> sends all its pages on one transaction and commits
  once: when it fails, the rollback leaves in storage exactly what was committed before
  the call, nothing of what the call wrote, and the error is recorded.
\<close>

theorem failed_fact_load_rolls_back_call:
  assumes "load_facts fault s = (False, s')"
  shows "saved (conn s') = saved (conn s) \<and> live (conn s') = saved (conn s)
         \<and> errors (stats s') = errors (stats s) @ [Fact_load_error]"
  using load_facts_False [OF assms] by simp

lemma load_facts_first_call_fails:
  "fault 0 \<Longrightarrow> fst (load_facts fault (at_warehouse (r # rs))) = False"
  by (simp add: load_facts_def at_warehouse_simps fetchone_def cursor_simps facts_failed_def)

text \<open>C3 as amended, at a load whose first lookup raises.\<close>

theorem failed_fact_load_witness:
  "load_facts (\<lambda>k. k = 0) (at_warehouse [clean_a])
     = (False, snd (load_facts (\<lambda>k. k = 0) (at_warehouse [clean_a])))
   \<and> saved (conn (snd (load_facts (\<lambda>k. k = 0) (at_warehouse [clean_a])))) = example_warehouse
   \<and> live (conn (snd (load_facts (\<lambda>k. k = 0) (at_warehouse [clean_a])))) = example_warehouse
   \<and> errors (stats (snd (load_facts (\<lambda>k. k = 0) (at_warehouse [clean_a])))) = [Fact_load_error]"
proof -
  let ?r = "load_facts (\<lambda>k. k = 0) (at_warehouse [clean_a])"
  have "fst ?r = False"
    by (rule load_facts_first_call_fails) simp
  then have a: "?r = (False, snd ?r)"
    by (metis prod.collapse)
  show ?thesis
    using failed_fact_load_rolls_back_call [OF a] a
    by (simp add: at_warehouse_simps)
qed

lemma present_replicate: "present (replicate n (Some v)) = replicate n v"
  by (induction n) (simp_all add: present_simps)

lemma paginate_two:
  "paginate 1000 (replicate 1001 x) = [replicate 1000 x, [x]]"
proof -
  have "paginate 1000 (replicate 1001 x) = replicate 1000 x # paginate 1000 (replicate 1 x)"
    by (subst paginate.simps) simp
  also have "paginate 1000 (replicate 1 x) = [x] # paginate 1000 []"
    by (subst paginate.simps) simp
  also have "paginate 1000 ([] :: 'a list) = []"
    by (subst paginate.simps) simp
  finally show ?thesis .
qed

lemma bulk_resolve:
  "resolve_rows (\<lambda>k. k = 3004) (replicate 1001 clean_a) []
       (cursor (conn (at_warehouse (replicate 1001 clean_a))))
     = Done (replicate 1001 fact_a)
         ((cursor (conn (at_warehouse (replicate 1001 clean_a)))) \<lparr> calls := 3003 \<rparr>)"
  by (subst resolve_rows_range)
     (simp_all add: cursor_simps at_warehouse_simps resolve_example present_replicate)

text \<open>C3 as stated fails: of 1001 records that resolve, the first page of 1000 rows
  is executed, the second page raises, and \<^verbatim>\<open>load_facts\<close> leaves no fact row: the
  first batch is rolled back with the one in progress.\<close>

theorem first_batch_rolled_back_too:
  "\<not> fst (load_facts (\<lambda>k. k = 3004) (at_warehouse (replicate 1001 clean_a)))
   \<and> fact_transactions (saved (conn (snd
        (load_facts (\<lambda>k. k = 3004) (at_warehouse (replicate 1001 clean_a)))))) = []
   \<and> fact_transactions (live (conn (snd
        (load_facts (\<lambda>k. k = 3004) (at_warehouse (replicate 1001 clean_a)))))) = []
   \<and> (\<exists>c1 c2.
         resolve_rows (\<lambda>k. k = 3004) (replicate 1001 clean_a) []
             (cursor (conn (at_warehouse (replicate 1001 clean_a))))
           = Done (replicate 1001 fact_a) c1
         \<and> paginate 1000 (replicate 1001 fact_a) = [replicate 1000 fact_a, [fact_a]]
         \<and> execute (\<lambda>k. k = 3004) (insert_facts (replicate 1000 fact_a)) c1 = Done () c2
         \<and> fact_transactions (live c2) = replicate 1000 fact_a
         \<and> execute (\<lambda>k. k = 3004) (insert_facts [fact_a]) c2 = Raised c2)"
proof -
  let ?s = "at_warehouse (replicate 1001 clean_a)"
  let ?c1 = "(cursor (conn ?s)) \<lparr> calls := 3003 \<rparr>"
  let ?c2 = "insert_facts (replicate 1000 fact_a) ((cursor (conn ?s)) \<lparr> calls := 3004 \<rparr>)"
  have e1: "execute (\<lambda>k. k = 3004) (insert_facts (replicate 1000 fact_a)) ?c1 = Done () ?c2"
    by (simp add: execute_def)
  have e2: "execute (\<lambda>k. k = 3004) (insert_facts [fact_a]) ?c2 = Raised ?c2"
    by (simp add: execute_def insert_facts_def)
  have live2: "fact_transactions (live ?c2) = replicate 1000 fact_a"
    by (simp add: insert_facts_def cursor_simps at_warehouse_simps example_facts_empty)
  have failed: "fst (load_facts (\<lambda>k. k = 3004) ?s) = False"
    by (simp add: load_facts_def at_warehouse_simps(1) bulk_resolve execute_batch_def
          paginate_two e1 e2 facts_failed_def)
  then have r: "load_facts (\<lambda>k. k = 3004) ?s = (False, snd (load_facts (\<lambda>k. k = 3004) ?s))"
    by (metis prod.collapse)
  have "saved (conn (snd (load_facts (\<lambda>k. k = 3004) ?s))) = example_warehouse"
    "live (conn (snd (load_facts (\<lambda>k. k = 3004) ?s))) = example_warehouse"
    using load_facts_False [OF r] by (simp_all add: at_warehouse_simps)
  with failed bulk_resolve paginate_two e1 e2 live2 show ?thesis
    by (simp add: example_facts_empty)
qed

section \<open>Lemmas on run\<close>

lemma connect_effect:
  assumes "connect f s = (ok, s')"
  shows "logged s' = logged s @ [(Connect, ok)]"
    and "errors (stats s') = errors (stats s) @ (if ok then [] else [Connection_error])"
    and "rows_extracted (stats s') = rows_extracted (stats s)"
  using assms by (auto simp: connect_def log_line_def append_error_def split: if_splits)

lemma extract_effect:
  assumes "extract_csv src s = (ok, s')"
  shows "logged s' = logged s @ [(Extract, ok)]"
    and "errors (stats s') = errors (stats s) @ (if ok then [] else [Extraction_error])"
    and "ok \<Longrightarrow> \<exists>raw. df_raw s' = Some raw \<and> rows_extracted (stats s') = length raw"
  using assms
  by (auto simp: extract_csv_def log_line_def append_error_def split: option.splits)

lemma transform_effect:
  assumes "transform td s = (ok, s')"
  shows "logged s' = logged s @ [(Transform, ok)]"
    and "errors (stats s') = errors (stats s) @ (if ok then [] else [Transformation_error])"
    and "rows_extracted (stats s') = rows_extracted (stats s)"
    and "ok \<Longrightarrow> df_raw s \<noteq> Some []"
  using assms
  by (auto simp: transform_def Let_def log_line_def append_error_def
        split: option.splits if_splits)

lemma load_dimensions_effect:
  assumes "load_dimensions f s = (ok, s')"
  shows "logged s' = logged s @ [(LoadDimensions, ok)]"
    and "errors (stats s') = errors (stats s) @ (if ok then [] else [Dimension_load_error])"
    and "rows_extracted (stats s') = rows_extracted (stats s)"
  using assms
  by (auto simp: load_dimensions_def dimensions_failed_def Let_def log_line_def
        append_error_def split: option.splits outcome.splits)

lemma load_facts_effect:
  assumes "load_facts f s = (ok, s')"
  shows "logged s' = logged s @ [(LoadFacts, ok)]"
    and "errors (stats s') = errors (stats s) @ (if ok then [] else [Fact_load_error])"
    and "rows_extracted (stats s') = rows_extracted (stats s)"
  using assms
  by (auto simp: load_facts_def facts_failed_def Let_def log_line_def
        append_error_def split: option.splits outcome.splits)

lemma refresh_effect:
  assumes "refresh_aggregates f s = (ok, s')"
  shows "logged s' = logged s @ [(RefreshAggregates, ok)]"
    and "stats s' = stats s"
  using assms
  by (auto simp: refresh_aggregates_def Let_def log_line_def split: outcome.splits)

lemma validate_effect:
  assumes "validate f s = (res, s')"
  shows "logged s' = logged s @ [(Validate, res \<noteq> None)]"
    and "stats s' = stats s"
    and "live (conn s') = live (conn s)" and "saved (conn s') = saved (conn s)"
  using assms
  by (auto simp: validate_def validation_failed_def Let_def log_line_def fetchone_def
        cursor_simps split: outcome.splits if_splits)

lemma run_try_cases:
  assumes run: "run_try fault td src s0 = (ok, s')"
  obtains
    (at_connect) "\<not> ok" "logged s' = logged s0 @ [(Connect, False)]"
      "errors (stats s') = errors (stats s0) @ [Connection_error]"
  | (at_extract) "\<not> ok" "logged s' = logged s0 @ [(Connect, True), (Extract, False)]"
      "errors (stats s') = errors (stats s0) @ [Extraction_error]"
  | (at_transform) "\<not> ok"
      "logged s' = logged s0 @ [(Connect, True), (Extract, True), (Transform, False)]"
      "errors (stats s') = errors (stats s0) @ [Transformation_error]"
  | (at_dimensions) "\<not> ok"
      "logged s' = logged s0 @ [(Connect, True), (Extract, True), (Transform, True),
         (LoadDimensions, False)]"
      "errors (stats s') = errors (stats s0) @ [Dimension_load_error]"
  | (at_facts) "\<not> ok"
      "logged s' = logged s0 @ [(Connect, True), (Extract, True), (Transform, True),
         (LoadDimensions, True), (LoadFacts, False)]"
      "errors (stats s') = errors (stats s0) @ [Fact_load_error]"
  | (at_refresh) "\<not> ok"
      "logged s' = logged s0 @ [(Connect, True), (Extract, True), (Transform, True),
         (LoadDimensions, True), (LoadFacts, True), (RefreshAggregates, False)]"
      "errors (stats s') = errors (stats s0)"
  | (at_validate) b where "ok"
      "logged s' = logged s0 @ [(Connect, True), (Extract, True), (Transform, True),
         (LoadDimensions, True), (LoadFacts, True), (RefreshAggregates, True), (Validate, b)]"
      "errors (stats s') = errors (stats s0)"
proof -
  obtain ok1 s1 where r1: "connect (fault Connect) s0 = (ok1, s1)"
    by force
  note e1 = connect_effect [OF r1]
  show thesis
  proof (cases ok1)
    case False
    with run r1 have "\<not> ok" "s' = s1"
      by (simp_all add: run_try_def)
    with e1 False show thesis
      by (intro at_connect) simp_all
  next
    case ok1: True
    obtain ok2 s2 where r2: "extract_csv src s1 = (ok2, s2)"
      by force
    note e2 = extract_effect [OF r2]
    show thesis
    proof (cases ok2)
      case False
      with run r1 r2 ok1 have "\<not> ok" "s' = s2"
        by (simp_all add: run_try_def)
      with e1 e2(1,2) ok1 False show thesis
        by (intro at_extract) simp_all
    next
      case ok2: True
      obtain ok3 s3 where r3: "transform td s2 = (ok3, s3)"
        by force
      note e3 = transform_effect [OF r3]
      show thesis
      proof (cases ok3)
        case False
        with run r1 r2 r3 ok1 ok2 have "\<not> ok" "s' = s3"
          by (simp_all add: run_try_def)
        with e1 e2(1,2) e3(1,2) ok1 ok2 False show thesis
          by (intro at_transform) simp_all
      next
        case ok3: True
        from e2(3) [OF ok2] e3(3,4) ok3 have rows: "rows_extracted (stats s3) \<noteq> 0"
          by auto
        obtain ok4 s4 where r4: "load_dimensions (fault LoadDimensions) s3 = (ok4, s4)"
          by force
        note e4 = load_dimensions_effect [OF r4]
        show thesis
        proof (cases ok4)
          case False
          with run r1 r2 r3 r4 ok1 ok2 ok3 have "\<not> ok" "s' = s4"
            by (simp_all add: run_try_def)
          with e1 e2(1,2) e3(1,2) e4 ok1 ok2 ok3 False show thesis
            by (intro at_dimensions) simp_all
        next
          case ok4: True
          obtain ok5 s5 where r5: "load_facts (fault LoadFacts) s4 = (ok5, s5)"
            by force
          note e5 = load_facts_effect [OF r5]
          show thesis
          proof (cases ok5)
            case False
            with run r1 r2 r3 r4 r5 ok1 ok2 ok3 ok4 have "\<not> ok" "s' = s5"
              by (simp_all add: run_try_def)
            with e1 e2(1,2) e3(1,2) e4 e5 ok1 ok2 ok3 ok4 False show thesis
              by (intro at_facts) simp_all
          next
            case ok5: True
            obtain ok6 s6 where r6: "refresh_aggregates (fault RefreshAggregates) s5 = (ok6, s6)"
              by force
            note e6 = refresh_effect [OF r6]
            show thesis
            proof (cases ok6)
              case False
              with run r1 r2 r3 r4 r5 r6 ok1 ok2 ok3 ok4 ok5 have "\<not> ok" "s' = s6"
                by (simp_all add: run_try_def)
              with e1 e2(1,2) e3(1,2) e4 e5 e6 ok1 ok2 ok3 ok4 ok5 False show thesis
                by (intro at_refresh) simp_all
            next
              case ok6: True
              obtain res s7 where r7: "validate (fault Validate) s6 = (res, s7)"
                by force
              note e7 = validate_effect [OF r7]
              from rows e4(3) e5(3) e6(2) e7(2) have "rows_extracted (stats s7) \<noteq> 0"
                by simp
              with run r1 r2 r3 r4 r5 r6 r7 ok1 ok2 ok3 ok4 ok5 ok6 have "ok" "s' = s7"
                by (simp_all add: run_try_def)
              with e1 e2(1,2) e3(1,2) e4 e5 e6 e7 ok1 ok2 ok3 ok4 ok5 ok6 show thesis
                by (intro at_validate [of "res \<noteq> None"]) simp_all
            qed
          qed
        qed
      qed
    qed
  qed
qed

section \<open>The scenario of four rows\<close>

lemma astype_int_101: "astype_int ''101'' = Some 101"
  by (simp add: astype_int_def py_int_def strip_def isspace_def isdigit_def digits_value_def)

lemma startswith_C1001: "startswith ''C1001'' ''C''"
  by (simp add: startswith_def)

lemma scenario_clean_frame:
  assumes a: "raw_Quantity a = 3" "raw_UnitPrice a = Some (5 / 2)"
      "raw_CustomerID a = Some ''101''" "raw_Description a \<noteq> None"
      "\<not> (case raw_InvoiceNo a of None \<Rightarrow> False | Some s \<Rightarrow> startswith s ''C'')"
    and c: "raw_CustomerID c = None"
    and d: "raw_InvoiceNo d = Some ''C1001''" "raw_Description d \<noteq> None"
      "convert_CustomerID (raw_CustomerID d) \<noteq> None"
    and parse: "to_datetime [raw_InvoiceDate a, raw_InvoiceDate d] = Some f"
  shows "\<exists>x. clean_frame to_datetime [a, a, c, d] = Some [x] \<and> derived_from f a x
           \<and> CustomerID x = 101"
proof -
  have ne: "c \<noteq> a" "d \<noteq> a" "d \<noteq> c"
    using a c d startswith_C1001 by (auto simp: convert_CustomerID_def)
  then have dd: "drop_duplicates [a, a, c, d] = [a, c, d]"
    by (auto simp: drop_duplicates_def)
  have kept: "dropna_Description (dropna_CustomerID [a, c, d]) = [a, d]"
    using a c d
    by (auto simp: dropna_Description_def dropna_CustomerID_def convert_CustomerID_def
          split: option.splits)
  obtain xa where xa: "convert_row f a = Some xa"
    using a by (simp add: convert_row_def convert_CustomerID_def astype_int_101)
  obtain xd where xd: "convert_row f d = Some xd"
    using d by (auto simp: convert_row_def split: option.splits)
  have conv: "convert_types to_datetime [a, d] = Some [xa, xd]"
    by (simp add: convert_types_def parse xa xd)
  have keep_a: "\<not> is_cancelled xa \<and> 0 < Quantity xa \<and> positive_price (UnitPrice xa)
                 \<and> Quantity xa \<le> 10000"
    unfolding convert_row_keep [OF xa] using a by (simp add: positive_price_def)
  have drop_d: "is_cancelled xd"
    using xd d startswith_C1001
    by (auto simp: convert_row_def is_cancelled_def split: option.splits)
  have q: "quality_filters [xa, xd] = [xa]"
    using keep_a drop_d by (simp add: quality_filters_def)
  have "clean_frame to_datetime [a, a, c, d] = Some [clean_text (add_features xa)]"
    by (simp add: clean_frame_def dd kept conv q)
  moreover have "derived_from f a (clean_text (add_features xa))"
    using xa by (rule convert_row_derived)
  moreover have "CustomerID (clean_text (add_features xa)) = 101"
    using xa a
    by (auto simp: convert_row_def convert_CustomerID_def astype_int_101 clean_text_def
          add_features_def row.defs clean_record.defs)
  ultimately show ?thesis
    by blast
qed

lemma single_record_dimensions:
  assumes "live c = empty_database"
  shows "dim_dates (live (dimensions_loaded [x] c))
     = [dates_df_row.extend (dates_df_of (dt_date (InvoiceDate x)))
          (dim_dates_row.fields (date_seq c))]"
  "dim_customers (live (dimensions_loaded [x] c))
     = [customers_df_row.extend (customer_group [x] (CustomerID x))
          (dim_customers_row.fields None)]"
  "dim_products (live (dimensions_loaded [x] c))
     = [products_df_row.extend (product_group [x] (StockCode x))
          (dim_products_row.fields (product_seq c))]"
  "fact_transactions (live (dimensions_loaded [x] c)) = []"
  using assms
  by (simp_all add: dimensions_loaded_def dates_frame_def unique_def customers_frame_def
        products_frame_def stepped_def insert_date_def insert_customer_def insert_product_def
        upsert_date_def upsert_customer_def upsert_product_def committed_def cursor_def
        empty_database_def)

lemma single_record_resolve:
  assumes "live c = empty_database"
  shows "resolve (live (dimensions_loaded [x] c)) x
     = Some (fact_of x (CustomerID x) (product_seq c) (date_seq c))"
  by (simp add: resolve_def select_customer_def select_product_def select_date_def
        single_record_dimensions [OF assms] customer_group_def product_group_def dates_df_of_def
        dates_df_row.defs dim_dates_row.defs customers_df_row.defs dim_customers_row.defs
        products_df_row.defs dim_products_row.defs Let_def)

lemma paginate_single: "paginate 1000 [t] = [[t]]"
proof -
  have "paginate 1000 [t] = [t] # paginate 1000 []"
    by (subst paginate.simps) simp
  also have "paginate 1000 ([] :: 'a list) = []"
    by (subst paginate.simps) simp
  finally show ?thesis .
qed

lemma single_record_facts:
  fixes x :: clean_record
  assumes empty: "live c0 = empty_database"
  defines "c \<equiv> facts_loaded [x] (dimensions_loaded [x] c0)"
  shows "fact_transactions (live c)
           = [fact_of x (CustomerID x) (product_seq c0) (date_seq c0)]"
    and "saved c = live c"
    and "length (dim_dates (live c)) = 1"
    and "length (dim_customers (live c)) = 1"
    and "length (dim_products (live c)) = 1"
  by (simp_all add: c_def facts_loaded_def committed_simps fold_insert_facts cursor_simps
        single_record_resolve [OF empty] present_simps paginate_single
        single_record_dimensions [OF empty] stepped_def insert_facts_def)

lemma scenario_through_facts:
  assumes a: "raw_Quantity a = 3" "raw_UnitPrice a = Some (5 / 2)"
      "raw_CustomerID a = Some ''101''" "raw_Description a \<noteq> None"
      "\<not> (case raw_InvoiceNo a of None \<Rightarrow> False | Some s \<Rightarrow> startswith s ''C'')"
    and c: "raw_CustomerID c = None"
    and d: "raw_InvoiceNo d = Some ''C1001''" "raw_Description d \<noteq> None"
      "convert_CustomerID (raw_CustomerID d) \<noteq> None"
    and parse: "to_datetime [raw_InvoiceDate a, raw_InvoiceDate d] = Some f"
    and ok: "\<not> fault Connect 0" "\<forall>k. \<not> fault LoadDimensions k" "\<forall>k. \<not> fault LoadFacts k"
  obtains s5 x where
    "run_try fault to_datetime (Some [a, a, c, d]) (init (fresh_session empty_database))
       = (case refresh_aggregates (fault RefreshAggregates) s5 of
            (ok6, s6) \<Rightarrow>
              if \<not> ok6 then (False, s6)
              else (case validate (fault Validate) s6 of
                      (v, s7) \<Rightarrow>
                        if rows_extracted (stats s7) = 0 then (False, s7) else (True, s7)))"
    and "stats s5 = \<lparr> rows_extracted = 4, rows_after_cleaning = 1, customers_loaded = 1,
           products_loaded = 1, dates_loaded = 1, transactions_loaded = 1, errors = [] \<rparr>"
    and "df_clean s5 = Some [x]" and "derived_from f a x"
    and "saved (conn s5) = live (conn s5)"
    and "length (dim_dates (live (conn s5))) = 1"
    and "length (dim_customers (live (conn s5))) = 1"
    and "length (dim_products (live (conn s5))) = 1"
    and "fact_transactions (live (conn s5)) = [fact_of x 101 1 1]"
    and "logged s5 = [(Connect, True), (Extract, True), (Transform, True),
           (LoadDimensions, True), (LoadFacts, True)]"
proof -
  let ?s0 = "init (fresh_session empty_database)"
  from scenario_clean_frame [where to_datetime = to_datetime and f = f, OF a c d parse]
  obtain x where
    cf: "clean_frame to_datetime [a, a, c, d] = Some [x]" and x: "derived_from f a x"
    and cid: "CustomerID x = 101"
    by blast
  define s1 where "s1 = log_line Connect True (?s0 \<lparr> conn := (conn ?s0) \<lparr> is_open := True \<rparr> \<rparr>)"
  define s2 where "s2 = log_line Extract True
      (s1 \<lparr> df_raw := Some [a, a, c, d],
            stats := (stats s1) \<lparr> rows_extracted := length [a, a, c, d] \<rparr> \<rparr>)"
  define s3 where "s3 = log_line Transform True
      (s2 \<lparr> df_clean := Some [x],
            stats := (stats s2) \<lparr> rows_after_cleaning := length [x] \<rparr> \<rparr>)"
  define s4 where "s4 = log_line LoadDimensions True
      (s3 \<lparr> conn := dimensions_loaded [x] (conn s3),
            stats := (stats s3) \<lparr> dates_loaded := length (dates_frame [x]),
              customers_loaded := length (customers_frame [x]),
              products_loaded := length (products_frame [x]) \<rparr> \<rparr>)"
  define s5 where "s5 = log_line LoadFacts True
      (s4 \<lparr> conn := facts_loaded [x] (conn s4),
            stats := (stats s4) \<lparr> transactions_loaded :=
              length (present (map (resolve (live (conn s4))) [x])) \<rparr> \<rparr>)"
  have r1: "connect (fault Connect) ?s0 = (True, s1)"
    using ok(1) by (simp add: connect_def s1_def)
  have r2: "extract_csv (Some [a, a, c, d]) s1 = (True, s2)"
    by (simp add: extract_csv_def s2_def)
  have raw2: "df_raw s2 = Some [a, a, c, d]"
    by (simp add: s2_def log_line_def)
  have r3: "transform to_datetime s2 = (True, s3)"
    unfolding s3_def by (rule transform_clean [OF raw2 _ cf]) simp
  have df3: "df_clean s3 = Some [x]"
    by (simp add: s3_def log_line_def)
  have r4: "load_dimensions (fault LoadDimensions) s3 = (True, s4)"
    unfolding s4_def by (rule load_dimensions_no_fault [OF ok(2) df3])
  have df4: "df_clean s4 = Some [x]"
    by (simp add: s4_def log_line_def df3)
  have r5: "load_facts (fault LoadFacts) s4 = (True, s5)"
    unfolding s5_def by (rule load_facts_no_fault [OF ok(3) df4])
  have c3: "conn s3 = (fresh_session empty_database) \<lparr> is_open := True \<rparr>"
    by (simp add: s3_def s2_def s1_def log_line_def init_def)
  have empty: "live (conn s3) = empty_database" and seqs: "date_seq (conn s3) = 1"
    "product_seq (conn s3) = 1"
    by (simp_all add: c3 fresh_session_def)
  have c4: "conn s4 = dimensions_loaded [x] (conn s3)"
    by (simp add: s4_def log_line_def)
  have c5: "conn s5 = facts_loaded [x] (dimensions_loaded [x] (conn s3))"
    by (simp add: s5_def log_line_def c4)
  note facts = single_record_facts [OF empty, of x, folded c5, unfolded seqs cid]
  have run: "run_try fault to_datetime (Some [a, a, c, d]) ?s0
       = (case refresh_aggregates (fault RefreshAggregates) s5 of
            (ok6, s6) \<Rightarrow>
              if \<not> ok6 then (False, s6)
              else (case validate (fault Validate) s6 of
                      (v, s7) \<Rightarrow>
                        if rows_extracted (stats s7) = 0 then (False, s7) else (True, s7)))"
    by (simp add: run_try_def r1 r2 r3 r4 r5 Let_def split: prod.splits)
  have st: "stats s5 = \<lparr> rows_extracted = 4, rows_after_cleaning = 1, customers_loaded = 1,
           products_loaded = 1, dates_loaded = 1, transactions_loaded = 1, errors = [] \<rparr>"
    by (simp add: s5_def s4_def s3_def s2_def s1_def log_line_def init_def init_stats_def
          c3 single_record_resolve [OF empty, unfolded c3] present_simps
          dates_frame_def unique_def customers_frame_def products_frame_def)
  have lg: "logged s5 = [(Connect, True), (Extract, True), (Transform, True),
           (LoadDimensions, True), (LoadFacts, True)]"
    by (simp add: s5_def s4_def s3_def s2_def s1_def log_line_def init_def)
  have df5: "df_clean s5 = Some [x]"
    by (simp add: s5_def log_line_def df4)
  show thesis
    using that [OF run st df5 x facts(2,3,4,5,1) lg] .
qed

lemma refresh_no_fault:
  assumes "\<forall>k. \<not> f k"
  shows "refresh_aggregates f s
     = (True, log_line RefreshAggregates True
         (s \<lparr> conn := committed (refresh_view ((cursor (conn s)) \<lparr> calls := 1 \<rparr>)) \<rparr>))"
  using assms
  by (simp add: refresh_aggregates_def execute_def commit_def committed_def cursor_def
        refresh_view_def)

lemma refresh_first_call_fails:
  "f 0 \<Longrightarrow> refresh_aggregates f s
     = (False, log_line RefreshAggregates False (s \<lparr> conn := cursor (conn s) \<rparr>))"
  by (simp add: refresh_aggregates_def execute_def cursor_simps)

lemma validate_first_call_fails:
  "g 0 \<Longrightarrow> validate g s = (None, log_line Validate False (s \<lparr> conn := cursor (conn s) \<rparr>))"
  by (simp add: validate_def validation_failed_def fetchone_def cursor_simps)

lemma validate_None_iff:
  "fst (validate g s) = None \<longleftrightarrow> g 0 \<or> g 1 \<or> g 2 \<or> g 3 \<or> g 4 \<or> g 5"
  by (simp add: validate_def validation_failed_def fetchone_def cursor_simps Let_def
        eval_nat_numeral)

lemma validate_frame:
  "stats (snd (validate g s)) = stats s"
  "df_clean (snd (validate g s)) = df_clean s"
  "live (conn (snd (validate g s))) = live (conn s)"
  "saved (conn (snd (validate g s))) = saved (conn s)"
  by (simp_all add: validate_def validation_failed_def fetchone_def cursor_simps Let_def
        log_line_def)

lemma close_frame:
  "stats (close s) = stats s" "df_clean (close s) = df_clean s" "logged (close s) = logged s"
  "saved (conn (close s)) = saved (conn s)" "live (conn (close s)) = saved (conn s)"
  by (simp_all add: close_def)

lemma refreshed_frame:
  "dim_dates (live (refresh_view c)) = dim_dates (live c)"
  "dim_customers (live (refresh_view c)) = dim_customers (live c)"
  "dim_products (live (refresh_view c)) = dim_products (live c)"
  "fact_transactions (live (refresh_view c)) = fact_transactions (live c)"
  by (simp_all add: refresh_view_def)

lemma total_amount_fact_of:
  "total_amount (fact_of x cid pid did) = map_option (\<lambda>p. of_int (Quantity x) * p) (UnitPrice x)"
  by (simp add: total_amount_def fact_of_def)

text \<open>
  C2. The scenario of four rows: a normal row \<open>a\<close> of quantity 3, unit price 2.50 and
  customer 101, \<open>a\<close> again, a row \<open>c\<close> without customer id, and a row \<open>d\<close> of invoice
  C1001 (with a description and a customer id that reads as an integer, as step 3 of
  \<^verbatim>\<open>transform\<close> converts it before the filters). When the timestamps are readable,
  the storage has no fault and the warehouse is empty, \<^verbatim>\<open>run\<close> succeeds, keeps the
  one clean record of \<open>a\<close>, and loads 1 customer, 1 product, 1 date and 1 fact, of
  total amount 7.50.
\<close>

theorem end_to_end_scenario:
  assumes a: "raw_Quantity a = 3" "raw_UnitPrice a = Some (5 / 2)"
      "raw_CustomerID a = Some ''101''" "raw_Description a \<noteq> None"
      "\<not> (case raw_InvoiceNo a of None \<Rightarrow> False | Some s \<Rightarrow> startswith s ''C'')"
    and c: "raw_CustomerID c = None"
    and d: "raw_InvoiceNo d = Some ''C1001''" "raw_Description d \<noteq> None"
      "convert_CustomerID (raw_CustomerID d) \<noteq> None"
    and parse: "to_datetime [raw_InvoiceDate a, raw_InvoiceDate d] = Some f"
    and ok: "\<forall>st k. \<not> fault st k"
  shows "\<exists>s' x.
           run fault to_datetime (Some [a, a, c, d]) (init (fresh_session empty_database))
             = (True, s')
           \<and> df_clean s' = Some [x] \<and> derived_from f a x
           \<and> TotalAmount x = Some (15 / 2)
           \<and> rows_extracted (stats s') = 4 \<and> rows_after_cleaning (stats s') = 1
           \<and> customers_loaded (stats s') = 1 \<and> products_loaded (stats s') = 1
           \<and> dates_loaded (stats s') = 1 \<and> transactions_loaded (stats s') = 1
           \<and> errors (stats s') = []
           \<and> length (dim_customers (saved (conn s'))) = 1
           \<and> length (dim_products (saved (conn s'))) = 1
           \<and> length (dim_dates (saved (conn s'))) = 1
           \<and> map total_amount (fact_transactions (saved (conn s'))) = [Some (15 / 2)]"
proof -
  have ok': "\<not> fault Connect 0" "\<forall>k. \<not> fault LoadDimensions k" "\<forall>k. \<not> fault LoadFacts k"
    "\<forall>k. \<not> fault RefreshAggregates k"
    using ok by simp_all
  from scenario_through_facts
    [where to_datetime = to_datetime and f = f and fault = fault, OF a c d parse ok'(1,2,3)]
  obtain s5 x where
    run: "run_try fault to_datetime (Some [a, a, c, d]) (init (fresh_session empty_database))
       = (case refresh_aggregates (fault RefreshAggregates) s5 of
            (ok6, s6) \<Rightarrow>
              if \<not> ok6 then (False, s6)
              else (case validate (fault Validate) s6 of
                      (v, s7) \<Rightarrow>
                        if rows_extracted (stats s7) = 0 then (False, s7) else (True, s7)))"
    and st: "stats s5 = \<lparr> rows_extracted = 4, rows_after_cleaning = 1, customers_loaded = 1,
           products_loaded = 1, dates_loaded = 1, transactions_loaded = 1, errors = [] \<rparr>"
    and df: "df_clean s5 = Some [x]" and x: "derived_from f a x"
    and tables: "saved (conn s5) = live (conn s5)"
      "length (dim_dates (live (conn s5))) = 1"
      "length (dim_customers (live (conn s5))) = 1"
      "length (dim_products (live (conn s5))) = 1"
      "fact_transactions (live (conn s5)) = [fact_of x 101 1 1]"
    by blast
  define s6 where "s6 = log_line RefreshAggregates True
      (s5 \<lparr> conn := committed (refresh_view ((cursor (conn s5)) \<lparr> calls := 1 \<rparr>)) \<rparr>)"
  define s7 where "s7 = snd (validate (fault Validate) s6)"
  have r6: "refresh_aggregates (fault RefreshAggregates) s5 = (True, s6)"
    unfolding s6_def by (rule refresh_no_fault [OF ok'(4)])
  have st7: "stats s7 = stats s5" and df7: "df_clean s7 = Some [x]"
    by (simp_all add: s7_def validate_frame s6_def log_line_def df)
  have saved7: "saved (conn s7) = live (committed (refresh_view ((cursor (conn s5)) \<lparr> calls := 1 \<rparr>)))"
    by (simp add: s7_def validate_frame s6_def log_line_def committed_simps)
  obtain v where r7: "validate (fault Validate) s6 = (v, s7)"
    unfolding s7_def by (metis prod.collapse)
  have "run fault to_datetime (Some [a, a, c, d]) (init (fresh_session empty_database))
          = (True, close s7)"
    by (simp add: run_def run r6 r7 st7 st)
  moreover have "TotalAmount x = Some (15 / 2)" "Quantity x = 3" "UnitPrice x = Some (5 / 2)"
    using x a by (simp_all add: derived_from_def)
  ultimately show ?thesis
    using df7 x st7 st saved7 tables
    by (intro exI [of _ "close s7"] exI [of _ x])
       (simp add: close_frame committed_simps refreshed_frame cursor_simps
          total_amount_fact_of refresh_view_def)
qed

lemma example_hyps:
  "raw_Quantity row_a = 3" "raw_UnitPrice row_a = Some (5 / 2)"
  "raw_CustomerID row_a = Some ''101''" "raw_Description row_a \<noteq> None"
  "\<not> (case raw_InvoiceNo row_a of None \<Rightarrow> False | Some s \<Rightarrow> startswith s ''C'')"
  "raw_CustomerID row_c = None"
  "raw_InvoiceNo row_d = Some ''C1001''" "raw_Description row_d \<noteq> None"
  "convert_CustomerID (raw_CustomerID row_d) \<noteq> None"
  "parse_table example_dates [raw_InvoiceDate row_a, raw_InvoiceDate row_d]
     = Some (read_table example_dates)"
  by (simp_all add: row_a_def row_c_def row_d_def startswith_def convert_CustomerID_def
        astype_int_101 parse_table_def example_dates_def read_table_def fun_eq_iff)

text \<open>
  C5 as amended. When a stage before \<^verbatim>\<open>validate\<close> logs its failure in a run, the
  run returns \<open>False\<close>, the stages that ran are those up to it in order, its log line
  is the last, and for Connect, Extract, Transform, LoadDimensions and LoadFacts the
  stage's error is appended to the statistics.
\<close>

theorem failed_stage_stops_run:
  assumes run: "run fault to_datetime source s0 = (ok, s')"
    and fresh: "logged s0 = []"
    and failed: "(st, False) \<in> set (logged s')"
    and gating: "st \<noteq> Validate"
  shows "\<not> ok \<and> map fst (logged s') = stages_through st \<and> last (logged s') = (st, False)
         \<and> (\<forall>e. error_of st = Some e \<longrightarrow> errors (stats s') = errors (stats s0) @ [e])"
proof -
  obtain s where r: "run_try fault to_datetime source s0 = (ok, s)" and s': "s' = close s"
    using run by (auto simp: run_def split: prod.splits)
  have lg: "logged s' = logged s" and er: "errors (stats s') = errors (stats s)"
    by (simp_all add: s' close_frame)
  from r show ?thesis
  proof (cases rule: run_try_cases)
    case at_connect
    with failed gating fresh show ?thesis by (auto simp: lg er)
  next
    case at_extract
    with failed gating fresh show ?thesis by (auto simp: lg er)
  next
    case at_transform
    with failed gating fresh show ?thesis by (auto simp: lg er)
  next
    case at_dimensions
    with failed gating fresh show ?thesis by (auto simp: lg er)
  next
    case at_facts
    with failed gating fresh show ?thesis by (auto simp: lg er)
  next
    case at_refresh
    with failed gating fresh show ?thesis by (auto simp: lg er)
  next
    case (at_validate b)
    with failed gating fresh show ?thesis by (auto simp: lg er)
  qed
qed

text \<open>C5 as amended, at a run whose connection fails.\<close>

theorem failed_stage_witness:
  "run (\<lambda>st k. st = Connect) (parse_table example_dates) (Some example_rows)
       (init (fresh_session empty_database))
     = (False, snd (run (\<lambda>st k. st = Connect) (parse_table example_dates) (Some example_rows)
                      (init (fresh_session empty_database))))
   \<and> logged (init (fresh_session empty_database)) = []
   \<and> (Connect, False) \<in> set (logged (snd (run (\<lambda>st k. st = Connect)
         (parse_table example_dates) (Some example_rows) (init (fresh_session empty_database)))))
   \<and> Connect \<noteq> Validate
   \<and> map fst (logged (snd (run (\<lambda>st k. st = Connect)
         (parse_table example_dates) (Some example_rows) (init (fresh_session empty_database)))))
       = [Connect]
   \<and> errors (stats (snd (run (\<lambda>st k. st = Connect)
         (parse_table example_dates) (Some example_rows) (init (fresh_session empty_database)))))
       = [Connection_error]"
proof -
  let ?r = "run (\<lambda>st k. st = Connect) (parse_table example_dates) (Some example_rows)
       (init (fresh_session empty_database))"
  have r: "?r = (False, snd ?r)"
    by (simp add: run_def run_try_def connect_def)
  have fresh: "logged (init (fresh_session empty_database)) = []"
    "errors (stats (init (fresh_session empty_database))) = []"
    by (simp_all add: init_def init_stats_def)
  have failed: "(Connect, False) \<in> set (logged (snd ?r))"
    by (simp add: run_def run_try_def connect_def close_def log_line_def append_error_def
          init_def)
  show ?thesis
    using failed_stage_stops_run [OF r fresh(1) failed] r fresh failed
    by simp
qed

text \<open>
  C9 as amended. \<^verbatim>\<open>validate\<close> never makes the run fail: the run succeeds exactly
  when \<^verbatim>\<open>refresh_aggregates\<close> has succeeded, and neither its result nor its
  statistics depend on the faults met during validation. When one of its six queries
  raises, \<^verbatim>\<open>validate\<close> returns the empty mapping; it changes neither the statistics
  nor the storage.
\<close>

theorem validation_never_fails_run:
  assumes fresh: "logged s0 = []"
  shows "(fst (run fault to_datetime source s0)
            \<longleftrightarrow> (RefreshAggregates, True) \<in> set (logged (snd (run fault to_datetime source s0))))
         \<and> fst (run (fault (Validate := g)) to_datetime source s0)
             = fst (run fault to_datetime source s0)
         \<and> stats (snd (run (fault (Validate := g)) to_datetime source s0))
             = stats (snd (run fault to_datetime source s0))
         \<and> (fst (validate g s) = None \<longleftrightarrow> g 0 \<or> g 1 \<or> g 2 \<or> g 3 \<or> g 4 \<or> g 5)
         \<and> stats (snd (validate g s)) = stats s
         \<and> live (conn (snd (validate g s))) = live (conn s)
         \<and> saved (conn (snd (validate g s))) = saved (conn s)"
proof -
  obtain ok s' where r: "run_try fault to_datetime source s0 = (ok, s')"
    by force
  have run: "run fault to_datetime source s0 = (ok, close s')"
    by (simp add: run_def r)
  from r have gate: "ok \<longleftrightarrow> (RefreshAggregates, True) \<in> set (logged s')"
    by (cases rule: run_try_cases) (simp_all add: fresh)
  have same: "fst (run_try (fault (Validate := g)) to_datetime source s0)
                = fst (run_try fault to_datetime source s0)
              \<and> stats (snd (run_try (fault (Validate := g)) to_datetime source s0))
                = stats (snd (run_try fault to_datetime source s0))"
    by (simp add: run_try_def split_def Let_def validate_frame)
  have run': "run (fault (Validate := g)) to_datetime source s0
      = (fst (run_try (fault (Validate := g)) to_datetime source s0),
         close (snd (run_try (fault (Validate := g)) to_datetime source s0)))"
    by (simp add: run_def split_def Let_def)
  show ?thesis
    using gate same
    by (simp add: run run' r close_frame validate_None_iff validate_frame)
qed

lemma example_refresh_fault:
  defines "r \<equiv> run (\<lambda>st k. st = RefreshAggregates \<and> k = 0) (parse_table example_dates)
                 (Some example_rows) (init (fresh_session empty_database))"
  shows "\<not> fst r"
    and "logged (snd r) = [(Connect, True), (Extract, True), (Transform, True),
           (LoadDimensions, True), (LoadFacts, True), (RefreshAggregates, False)]"
    and "errors (stats (snd r)) = []"
proof -
  let ?F = "\<lambda>st k. st = RefreshAggregates \<and> k = (0::nat)"
  have ok: "\<not> ?F Connect 0" "\<forall>k. \<not> ?F LoadDimensions k" "\<forall>k. \<not> ?F LoadFacts k"
    by simp_all
  from scenario_through_facts
    [where fault = ?F and to_datetime = "parse_table example_dates"
       and f = "read_table example_dates", OF example_hyps ok]
  obtain s5 x where
    run: "run_try ?F (parse_table example_dates) (Some [row_a, row_a, row_c, row_d])
            (init (fresh_session empty_database))
       = (case refresh_aggregates (?F RefreshAggregates) s5 of
            (ok6, s6) \<Rightarrow>
              if \<not> ok6 then (False, s6)
              else (case validate (?F Validate) s6 of
                      (v, s7) \<Rightarrow>
                        if rows_extracted (stats s7) = 0 then (False, s7) else (True, s7)))"
    and st: "stats s5 = \<lparr> rows_extracted = 4, rows_after_cleaning = 1, customers_loaded = 1,
           products_loaded = 1, dates_loaded = 1, transactions_loaded = 1, errors = [] \<rparr>"
    and lg: "logged s5 = [(Connect, True), (Extract, True), (Transform, True),
           (LoadDimensions, True), (LoadFacts, True)]"
    by blast
  have r: "r = (False, close (log_line RefreshAggregates False (s5 \<lparr> conn := cursor (conn s5) \<rparr>)))"
    by (simp add: r_def run_def example_rows_def run refresh_first_call_fails)
  show "\<not> fst r"
    and "logged (snd r) = [(Connect, True), (Extract, True), (Transform, True),
           (LoadDimensions, True), (LoadFacts, True), (RefreshAggregates, False)]"
    and "errors (stats (snd r)) = []"
    by (simp_all add: r close_frame log_line_def lg st)
qed

lemma example_validate_fault:
  defines "r \<equiv> run (\<lambda>st k. st = Validate \<and> k = 0) (parse_table example_dates)
                 (Some example_rows) (init (fresh_session empty_database))"
  shows "fst r"
    and "logged (snd r) = [(Connect, True), (Extract, True), (Transform, True),
           (LoadDimensions, True), (LoadFacts, True), (RefreshAggregates, True),
           (Validate, False)]"
    and "errors (stats (snd r)) = []"
proof -
  let ?F = "\<lambda>st k. st = Validate \<and> k = (0::nat)"
  have ok: "\<not> ?F Connect 0" "\<forall>k. \<not> ?F LoadDimensions k" "\<forall>k. \<not> ?F LoadFacts k"
    and ok6: "\<forall>k. \<not> ?F RefreshAggregates k"
    by simp_all
  from scenario_through_facts
    [where fault = ?F and to_datetime = "parse_table example_dates"
       and f = "read_table example_dates", OF example_hyps ok]
  obtain s5 x where
    run: "run_try ?F (parse_table example_dates) (Some [row_a, row_a, row_c, row_d])
            (init (fresh_session empty_database))
       = (case refresh_aggregates (?F RefreshAggregates) s5 of
            (ok6, s6) \<Rightarrow>
              if \<not> ok6 then (False, s6)
              else (case validate (?F Validate) s6 of
                      (v, s7) \<Rightarrow>
                        if rows_extracted (stats s7) = 0 then (False, s7) else (True, s7)))"
    and st: "stats s5 = \<lparr> rows_extracted = 4, rows_after_cleaning = 1, customers_loaded = 1,
           products_loaded = 1, dates_loaded = 1, transactions_loaded = 1, errors = [] \<rparr>"
    and lg: "logged s5 = [(Connect, True), (Extract, True), (Transform, True),
           (LoadDimensions, True), (LoadFacts, True)]"
    by blast
  define s6 where "s6 = log_line RefreshAggregates True
      (s5 \<lparr> conn := committed (refresh_view ((cursor (conn s5)) \<lparr> calls := 1 \<rparr>)) \<rparr>)"
  have r6: "refresh_aggregates (\<lambda>k. False) s5 = (True, s6)"
    unfolding s6_def by (rule refresh_no_fault) simp
  have r7: "validate (\<lambda>k. k = 0) s6
      = (None, log_line Validate False (s6 \<lparr> conn := cursor (conn s6) \<rparr>))"
    by (rule validate_first_call_fails) simp
  have r: "r = (True, close (log_line Validate False (s6 \<lparr> conn := cursor (conn s6) \<rparr>)))"
    by (simp add: r_def run_def example_rows_def run r6 r7 log_line_def st
          refresh_effect(2) [OF r6])
  show "fst r"
    and "logged (snd r) = [(Connect, True), (Extract, True), (Transform, True),
           (LoadDimensions, True), (LoadFacts, True), (RefreshAggregates, True),
           (Validate, False)]"
    and "errors (stats (snd r)) = []"
    by (simp_all add: r close_frame log_line_def s6_def lg st)
qed

text \<open>C5 as stated fails: when \<^verbatim>\<open>refresh_aggregates\<close> fails the run returns
  \<open>False\<close> with no error in the statistics, and when \<^verbatim>\<open>validate\<close> fails the run
  returns \<open>True\<close>.\<close>

theorem refresh_error_not_recorded_validate_not_gating:
  "\<not> fst (run (\<lambda>st k. st = RefreshAggregates \<and> k = 0) (parse_table example_dates)
             (Some example_rows) (init (fresh_session empty_database)))
   \<and> (RefreshAggregates, False) \<in> set (logged (snd
         (run (\<lambda>st k. st = RefreshAggregates \<and> k = 0) (parse_table example_dates)
            (Some example_rows) (init (fresh_session empty_database)))))
   \<and> errors (stats (snd
         (run (\<lambda>st k. st = RefreshAggregates \<and> k = 0) (parse_table example_dates)
            (Some example_rows) (init (fresh_session empty_database))))) = []
   \<and> (Validate, False) \<in> set (logged (snd
         (run (\<lambda>st k. st = Validate \<and> k = 0) (parse_table example_dates)
            (Some example_rows) (init (fresh_session empty_database)))))
   \<and> fst (run (\<lambda>st k. st = Validate \<and> k = 0) (parse_table example_dates)
           (Some example_rows) (init (fresh_session empty_database)))"
  by (simp add: example_refresh_fault example_validate_fault)

text \<open>C9 as stated fails: with storage unreachable at the first query,
  \<^verbatim>\<open>validate\<close> returns the empty mapping and logs its failure, the run returns
  \<open>True\<close> and the statistics hold no error.\<close>

theorem unreachable_validation_run_succeeds:
  "fst (validate (\<lambda>k. k = 0) (init (fresh_session empty_database))) = None
   \<and> (Validate, False) \<in> set (logged (snd
         (run (\<lambda>st k. st = Validate \<and> k = 0) (parse_table example_dates)
            (Some example_rows) (init (fresh_session empty_database)))))
   \<and> fst (run (\<lambda>st k. st = Validate \<and> k = 0) (parse_table example_dates)
           (Some example_rows) (init (fresh_session empty_database)))
   \<and> errors (stats (snd
         (run (\<lambda>st k. st = Validate \<and> k = 0) (parse_table example_dates)
            (Some example_rows) (init (fresh_session empty_database))))) = []"
  by (simp add: example_validate_fault validate_first_call_fails)

text \<open>C9 as amended, at the example rows with storage unreachable at the first
  query of the validation.\<close>

theorem validation_never_fails_run_witness:
  "logged (init (fresh_session empty_database)) = []
   \<and> fst (run ((\<lambda>st k. False) (Validate := (\<lambda>k. k = 0))) (parse_table example_dates)
           (Some example_rows) (init (fresh_session empty_database)))
       = fst (run (\<lambda>st k. False) (parse_table example_dates)
           (Some example_rows) (init (fresh_session empty_database)))
   \<and> stats (snd (run ((\<lambda>st k. False) (Validate := (\<lambda>k. k = 0))) (parse_table example_dates)
           (Some example_rows) (init (fresh_session empty_database))))
       = stats (snd (run (\<lambda>st k. False) (parse_table example_dates)
           (Some example_rows) (init (fresh_session empty_database))))
   \<and> fst (validate (\<lambda>k. k = 0) (init (fresh_session empty_database))) = None
   \<and> stats (snd (validate (\<lambda>k. k = 0) (init (fresh_session empty_database))))
       = stats (init (fresh_session empty_database))"
proof -
  have fresh: "logged (init (fresh_session empty_database)) = []"
    by (simp add: init_def)
  show ?thesis
    using validation_never_fails_run
      [OF fresh, of "\<lambda>st k. False" "parse_table example_dates" "Some example_rows"
         "\<lambda>k. k = 0" "init (fresh_session empty_database)"] fresh
    by simp
qed

text \<open>C2, at the example rows.\<close>

theorem end_to_end_scenario_witness:
  "raw_Quantity row_a = 3 \<and> raw_UnitPrice row_a = Some (5 / 2)
   \<and> raw_CustomerID row_a = Some ''101'' \<and> raw_CustomerID row_c = None
   \<and> raw_InvoiceNo row_d = Some ''C1001''
   \<and> parse_table example_dates [raw_InvoiceDate row_a, raw_InvoiceDate row_d]
       = Some (read_table example_dates)
   \<and> (\<exists>s' x.
         run (\<lambda>st k. False) (parse_table example_dates) (Some [row_a, row_a, row_c, row_d])
             (init (fresh_session empty_database)) = (True, s')
         \<and> df_clean s' = Some [x] \<and> derived_from (read_table example_dates) row_a x
         \<and> TotalAmount x = Some (15 / 2)
         \<and> rows_extracted (stats s') = 4 \<and> rows_after_cleaning (stats s') = 1
         \<and> customers_loaded (stats s') = 1 \<and> products_loaded (stats s') = 1
         \<and> dates_loaded (stats s') = 1 \<and> transactions_loaded (stats s') = 1
         \<and> errors (stats s') = []
         \<and> length (dim_customers (saved (conn s'))) = 1
         \<and> length (dim_products (saved (conn s'))) = 1
         \<and> length (dim_dates (saved (conn s'))) = 1
         \<and> map total_amount (fact_transactions (saved (conn s'))) = [Some (15 / 2)])"
proof -
  have ok: "\<forall>st k. \<not> (\<lambda>(st::stage) (k::nat). False) st k"
    by simp
  show ?thesis
    using end_to_end_scenario
      [where fault = "\<lambda>st k. False" and to_datetime = "parse_table example_dates"
         and f = "read_table example_dates", OF example_hyps ok]
      example_hyps
    by blast
qed

end
